theory Spec2Isabelle
  imports Main
begin

section \<open>The leave-request workflow of the hostel backend\<close>

text \<open>
  The leave controller (\<^verbatim>\<open>createLeaveRequest\<close>, \<^verbatim>\<open>getAllLeaveRequests\<close>,
  \<^verbatim>\<open>parentApproveOrReject\<close>, \<^verbatim>\<open>updateLeaveStatus\<close>, \<^verbatim>\<open>cancelMyLeaveRequest\<close>) is an
  Express handler set over three Mongoose collections. Each handler is embedded as a
  function from the request and the database to the response and the database
  afterwards. A failure response is the pair of its HTTP status and its message, exactly
  as the handler sends it; a success carries the leave document the response is built
  from.
\<close>

subsection \<open>Data\<close>

text \<open>
  An ObjectId. The id in the URL of a request is taken to be a well-formed one.
\<close>

type_synonym objectId = nat

text \<open>
  A JavaScript string is a sequence of UTF-16 code units. Text that the handlers only
  copy and compare with their own constants is kept as a \<open>string\<close>; the reason of a
  leave, which the handler trims, is kept as its code units, since trimming is defined
  on them. \<open>ascii\<close> gives the code units of an ASCII text.
\<close>

type_synonym jsString = "nat list"

definition ascii :: "string \<Rightarrow> jsString" where
  "ascii s = map of_char s"

text \<open>A failure response: HTTP status and message.\<close>

type_synonym failure = "nat \<times> string"

text \<open>
  What \<^verbatim>\<open>new Date(x)\<close> yields: a time value in milliseconds, or Invalid Date (whose time
  value is NaN).
\<close>

datatype jsDate = InvalidDate | Instant int

text \<open>One element of \<^verbatim>\<open>statusHistory\<close>; an \<^verbatim>\<open>undefined\<close> field is \<open>None\<close>.\<close>

record historyEntry =
  h_status :: string
  h_updatedBy :: "objectId option"
  h_role :: string
  h_reason :: "string option"
  h_timestamp :: int

text \<open>
  The Leave document, with the paths the controller reads and writes. The schema file
  itself is not part of the sources; \<open>createdAt\<close> is the schema's creation timestamp,
  which the handlers read and sort by.
\<close>

record leave =
  leave_id :: objectId
  studentId :: objectId
  institutionId :: objectId
  reason :: jsString
  type :: string
  outDate :: jsDate
  inDate :: jsDate
  outTime :: "string option"
  inTime :: "string option"
  status :: string
  parentApprovalStatus :: string
  parentApprovedBy :: "objectId option"
  parentApprovedAt :: "int option"
  parentRejectionReason :: "string option"
  approvedBy :: "objectId option"
  approvedAt :: "int option"
  rejectionReason :: "string option"
  statusHistory :: "historyEntry list"
  createdAt :: int

record student =
  s_id :: objectId
  s_userId :: objectId
  s_institutionId :: objectId

text \<open>The Parent document of \<^verbatim>\<open>Parent.model.js\<close>: one user, one institution, one student.\<close>

record parent =
  p_id :: objectId
  p_userId :: objectId
  p_institutionId :: objectId
  p_studentId :: objectId

text \<open>
  The database: the ids of the User documents that exist, and the Student, Parent and
  Leave collections in storage order.
\<close>

record db =
  users :: "objectId list"
  students :: "student list"
  parents :: "parent list"
  leaves :: "leave list"

text \<open>\<^verbatim>\<open>req.user\<close>, as the authentication layer supplies it.\<close>

record user =
  user_id :: objectId
  user_institutionId :: objectId

text \<open>
  The body of a creation request. A text field is \<open>None\<close> when it is absent. A date
  field is \<open>None\<close> when it is absent or empty (falsy), and otherwise holds what
  \<^verbatim>\<open>new Date\<close> makes of it.
\<close>

record createBody =
  b_reason :: "jsString option"
  b_type :: "string option"
  b_outDate :: "jsDate option"
  b_inDate :: "jsDate option"
  b_outTime :: "string option"
  b_inTime :: "string option"

text \<open>The body of a decision request: \<^verbatim>\<open>{ status, rejectionReason }\<close>.\<close>

record decisionBody =
  b_status :: string
  b_rejectionReason :: "string option"

subsection \<open>JavaScript primitives\<close>

text \<open>\<^verbatim>\<open>!x\<close> on an optional string: absent and empty strings are falsy.\<close>

definition falsy :: "'a list option \<Rightarrow> bool" where
  "falsy x = (case x of None \<Rightarrow> True | Some s \<Rightarrow> s = [])"

text \<open>
  \<^verbatim>\<open>a >= b\<close> on two Date objects compares their time values; with NaN on either side
  the comparison is false.
\<close>

fun date_ge :: "jsDate \<Rightarrow> jsDate \<Rightarrow> bool" where
  "date_ge (Instant a) (Instant b) = (a \<ge> b)"
| "date_ge _ _ = False"

text \<open>
  \<^verbatim>\<open>String.prototype.trim\<close> removes white space and line terminators from both ends.
  These are the code units of ECMAScript's WhiteSpace and LineTerminator: tab, line
  feed, vertical tab, form feed, carriage return, space, no-break space (U+00A0), the
  other space separators (U+1680, U+2000 to U+200A, U+202F, U+205F, U+3000), the line
  and paragraph separators (U+2028, U+2029) and the byte order mark (U+FEFF).
\<close>

definition isSpace :: "nat \<Rightarrow> bool" where
  "isSpace c =
     (c \<in> {0x09, 0x0A, 0x0B, 0x0C, 0x0D, 0x20, 0xA0, 0x1680, 0x2028, 0x2029, 0x202F, 0x205F,
            0x3000, 0xFEFF}
      \<or> (0x2000 \<le> c \<and> c \<le> 0x200A))"

definition trim :: "jsString \<Rightarrow> jsString" where
  "trim s = rev (dropWhile isSpace (rev (dropWhile isSpace s)))"

subsection \<open>Queries and writes\<close>

text \<open>\<^verbatim>\<open>Student.findOne({ userId, institutionId })\<close>\<close>

definition Student_findOne :: "objectId \<Rightarrow> objectId \<Rightarrow> db \<Rightarrow> student option" where
  "Student_findOne uid inst d =
     find (\<lambda>s. s_userId s = uid \<and> s_institutionId s = inst) (students d)"

text \<open>\<^verbatim>\<open>Parent.findOne({ userId, institutionId })\<close>\<close>

definition Parent_findOne :: "objectId \<Rightarrow> objectId \<Rightarrow> db \<Rightarrow> parent option" where
  "Parent_findOne uid inst d =
     find (\<lambda>p. p_userId p = uid \<and> p_institutionId p = inst) (parents d)"

text \<open>\<^verbatim>\<open>Leave.findOne({ _id: id, institutionId })\<close>\<close>

definition Leave_findOne :: "objectId \<Rightarrow> objectId \<Rightarrow> db \<Rightarrow> leave option" where
  "Leave_findOne i inst d =
     find (\<lambda>l. leave_id l = i \<and> institutionId l = inst) (leaves d)"

text \<open>\<^verbatim>\<open>Leave.findById(id)\<close>\<close>

definition Leave_findById :: "objectId \<Rightarrow> db \<Rightarrow> leave option" where
  "Leave_findById i d = find (\<lambda>l. leave_id l = i) (leaves d)"

text \<open>
  \<^verbatim>\<open>.populate('studentId', ...)\<close>: the Student document the leave refers to, \<open>None\<close>
  (JavaScript \<^verbatim>\<open>null\<close>) when there is none.
\<close>

definition populate_studentId :: "leave \<Rightarrow> db \<Rightarrow> student option" where
  "populate_studentId l d = find (\<lambda>s. s_id s = studentId l) (students d)"

text \<open>
  The nested populate of the student's \<^verbatim>\<open>userId\<close>, followed by the response's read of
  \<^verbatim>\<open>leave.studentId.userId.name\<close>: it throws when the student or its user is missing.
\<close>

definition student_name_readable :: "leave \<Rightarrow> db \<Rightarrow> bool" where
  "student_name_readable l d =
     (case populate_studentId l d of
        None \<Rightarrow> False
      | Some s \<Rightarrow> s_userId s \<in> set (users d))"

text \<open>A write to the first document of a list that matches a filter.\<close>

fun updateFirst :: "('a \<Rightarrow> bool) \<Rightarrow> ('a \<Rightarrow> 'a) \<Rightarrow> 'a list \<Rightarrow> 'a list" where
  "updateFirst P f [] = []"
| "updateFirst P f (x # xs) = (if P x then f x # xs else x # updateFirst P f xs)"

text \<open>
  \<^verbatim>\<open>leave.save()\<close>: the paths modified on the loaded document are written to the stored
  document with the same \<^verbatim>\<open>_id\<close>. The modification is the function \<open>patch\<close>.
\<close>

definition Leave_save :: "objectId \<Rightarrow> (leave \<Rightarrow> leave) \<Rightarrow> db \<Rightarrow> db" where
  "Leave_save i patch d = d\<lparr>leaves := updateFirst (\<lambda>l. leave_id l = i) patch (leaves d)\<rparr>"

text \<open>
  What the warden handler passes to \<^verbatim>\<open>findOneAndUpdate\<close>. \<open>status\<close>, \<open>approvedBy\<close> and
  \<open>statusHistory\<close> are always present; \<open>approvedAt\<close> and \<open>rejectionReason\<close> are \<open>None\<close>
  when the key is absent or its value is \<^verbatim>\<open>undefined\<close>, and such a key is not written.
\<close>

record updateData =
  u_status :: string
  u_approvedBy :: objectId
  u_statusHistory :: "historyEntry list"
  u_approvedAt :: "int option"
  u_rejectionReason :: "string option"

definition applyUpdate :: "updateData \<Rightarrow> leave \<Rightarrow> leave" where
  "applyUpdate u l =
     l\<lparr>status := u_status u,
       approvedBy := Some (u_approvedBy u),
       statusHistory := u_statusHistory u,
       approvedAt := (case u_approvedAt u of None \<Rightarrow> approvedAt l | Some t \<Rightarrow> Some t),
       rejectionReason :=
         (case u_rejectionReason u of None \<Rightarrow> rejectionReason l | Some r \<Rightarrow> Some r)\<rparr>"

text \<open>
  \<^verbatim>\<open>Leave.findOneAndUpdate({ _id: id, institutionId }, updateData, { new: true })\<close>: the
  first document matching the filter is updated and returned, \<open>None\<close> when none matches.
  The filter names the id and the institution, nothing else.
\<close>

definition Leave_findOneAndUpdate ::
    "objectId \<Rightarrow> objectId \<Rightarrow> updateData \<Rightarrow> db \<Rightarrow> leave option \<times> db" where
  "Leave_findOneAndUpdate i inst u d =
     (case Leave_findOne i inst d of
        None \<Rightarrow> (None, d)
      | Some l \<Rightarrow>
          (Some (applyUpdate u l),
           d\<lparr>leaves := updateFirst (\<lambda>l. leave_id l = i \<and> institutionId l = inst)
                          (applyUpdate u) (leaves d)\<rparr>))"

subsection \<open>The handlers\<close>

text \<open>
  Every handler takes \<open>now\<close>, the clock reading of the call (all \<^verbatim>\<open>new Date()\<close> of one
  call read it), the caller \<^verbatim>\<open>req.user\<close>, its parameters and the database.

  \<^verbatim>\<open>createLeaveRequest\<close> also takes what the missing schema file decides: \<open>schemaAccepts\<close>,
  whether \<^verbatim>\<open>Leave.create\<close> accepts the document, and \<open>newId\<close>, the \<^verbatim>\<open>_id\<close> given to it (a
  second document with an \<^verbatim>\<open>_id\<close> in use is refused by the store). A refused
  \<^verbatim>\<open>Leave.create\<close> throws, and the handler's \<^verbatim>\<open>catch\<close> answers 500.
\<close>

text \<open>The document handed to \<^verbatim>\<open>Leave.create\<close>, with the defaults of the unset paths.\<close>

definition createLeaveRequest_document ::
    "objectId \<Rightarrow> int \<Rightarrow> user \<Rightarrow> createBody \<Rightarrow> student \<Rightarrow> jsString \<Rightarrow> string \<Rightarrow> jsDate \<Rightarrow> jsDate
      \<Rightarrow> leave" where
  "createLeaveRequest_document newId now u b student' reason' type' outDateObj inDateObj =
     \<lparr>leave_id = newId,
      studentId = s_id student',
      institutionId = user_institutionId u,
      reason = trim reason',
      type = type',
      outDate = outDateObj,
      inDate = inDateObj,
      outTime = b_outTime b,
      inTime = b_inTime b,
      status = ''PendingParent'',
      parentApprovalStatus = ''Pending'',
      parentApprovedBy = None,
      parentApprovedAt = None,
      parentRejectionReason = None,
      approvedBy = None,
      approvedAt = None,
      rejectionReason = None,
      statusHistory =
        [\<lparr>h_status = ''PendingParent'', h_updatedBy = None, h_role = ''student'',
          h_reason = None, h_timestamp = now\<rparr>],
      createdAt = now\<rparr>"

definition createLeaveRequest ::
    "(leave \<Rightarrow> bool) \<Rightarrow> objectId \<Rightarrow> int \<Rightarrow> user \<Rightarrow> createBody \<Rightarrow> db
      \<Rightarrow> (failure + leave) \<times> db" where
  "createLeaveRequest schemaAccepts newId now u b d =
     (case (b_reason b, b_type b, b_outDate b, b_inDate b) of
        (Some reason', Some type', Some outDateObj, Some inDateObj) \<Rightarrow>
          if falsy (b_reason b) \<or> falsy (b_type b) then
            (Inl (400, ''Please provide reason, type, out date, and in date''), d)
          else if date_ge outDateObj inDateObj then
            (Inl (400, ''Out date must be before in date''), d)
          else
            (case Student_findOne (user_id u) (user_institutionId u) d of
               None \<Rightarrow> (Inl (404, ''Student profile not found''), d)
             | Some student' \<Rightarrow>
                 let leave' = createLeaveRequest_document newId now u b student'
                                reason' type' outDateObj inDateObj
                 in if \<not> schemaAccepts leave' \<or> newId \<in> set (map leave_id (leaves d)) then
                      (Inl (500, ''Server error while creating leave request''), d)
                    else
                      let d' = d\<lparr>leaves := leaves d @ [leave']\<rparr>
                      in if student_name_readable leave' d' then (Inr leave', d')
                         else (Inl (500, ''Server error while creating leave request''), d'))
      | _ \<Rightarrow> (Inl (400, ''Please provide reason, type, out date, and in date''), d))"

text \<open>
  \<^verbatim>\<open>getAllLeaveRequests\<close>: the documents \<^verbatim>\<open>Leave.find({ ...filter, institutionId })\<close>
  loads, newest first (documents created at the same instant keep their storage order
  here; the store leaves that order open). The response maps each loaded document to
  its view, reading nothing but the document and what it refers to.
\<close>

definition getAllLeaveRequests :: "user \<Rightarrow> string option \<Rightarrow> db \<Rightarrow> leave list" where
  "getAllLeaveRequests u q d =
     sort_key (\<lambda>l. - createdAt l)
       (filter (\<lambda>l. (if falsy q then True else Some (status l) = q)
                     \<and> institutionId l = user_institutionId u) (leaves d))"

text \<open>
  The writes of \<^verbatim>\<open>parentApproveOrReject\<close> on the loaded document, from
  \<^verbatim>\<open>const newStatus\<close> to \<^verbatim>\<open>statusHistory.push\<close>.
\<close>

definition parentApproveOrReject_writes :: "int \<Rightarrow> user \<Rightarrow> decisionBody \<Rightarrow> leave \<Rightarrow> leave" where
  "parentApproveOrReject_writes now u b l =
     (let newStatus =
            (if b_status b = ''Approved'' then ''ApprovedByParent'' else ''RejectedByParent'');
          historyEntry =
            \<lparr>h_status = newStatus, h_updatedBy = Some (user_id u), h_role = ''parent'',
             h_reason = (if b_status b = ''Rejected'' then b_rejectionReason b else None),
             h_timestamp = now\<rparr>;
          l1 = l\<lparr>status := newStatus,
                 parentApprovalStatus := b_status b,
                 parentApprovedBy := Some (user_id u),
                 parentApprovedAt := Some now\<rparr>;
          l2 = (if b_status b = ''Rejected''
                then l1\<lparr>parentRejectionReason := b_rejectionReason b\<rparr> else l1)
      in l2\<lparr>statusHistory := statusHistory l2 @ [historyEntry]\<rparr>)"

definition parentApproveOrReject ::
    "int \<Rightarrow> user \<Rightarrow> objectId \<Rightarrow> decisionBody \<Rightarrow> db \<Rightarrow> (failure + leave) \<times> db" where
  "parentApproveOrReject now u i b d =
     (if b_status b \<notin> {''Approved'', ''Rejected''} then
        (Inl (400, ''Invalid status. Must be Approved or Rejected''), d)
      else
        (case Parent_findOne (user_id u) (user_institutionId u) d of
           None \<Rightarrow> (Inl (403, ''Parent profile not found''), d)
         | Some parent' \<Rightarrow>
             (case Leave_findOne i (user_institutionId u) d of
                None \<Rightarrow> (Inl (404, ''Leave request not found''), d)
              | Some leave' \<Rightarrow>
                  (case populate_studentId leave' d of
                     None \<Rightarrow> (Inl (500, ''Server error while updating leave request''), d)
                   | Some st \<Rightarrow>
                       if s_id st \<noteq> p_studentId parent' then
                         (Inl (403, ''Not authorized to approve this leave request''), d)
                       else if status leave' \<noteq> ''PendingParent'' then
                         (Inl (400, ''This leave request is not awaiting parent approval''), d)
                       else
                         let d' = Leave_save (leave_id leave')
                                    (parentApproveOrReject_writes now u b) d
                         in (case Leave_findById (leave_id leave') d' of
                               None \<Rightarrow>
                                 (Inl (500, ''Server error while updating leave request''), d')
                             | Some populated \<Rightarrow> (Inr populated, d'))))))"

text \<open>
  \<^verbatim>\<open>updateLeaveStatus\<close> reads and then writes, with an \<^verbatim>\<open>await\<close> between the two. The
  first half, up to the finished \<^verbatim>\<open>updateData\<close>:
\<close>

definition updateLeaveStatus_updateData ::
    "int \<Rightarrow> user \<Rightarrow> decisionBody \<Rightarrow> leave \<Rightarrow> updateData" where
  "updateLeaveStatus_updateData now u b l =
     \<lparr>u_status = b_status b,
      u_approvedBy = user_id u,
      u_statusHistory = statusHistory l @
        [\<lparr>h_status = b_status b, h_updatedBy = Some (user_id u), h_role = ''warden'',
          h_reason = (if b_status b = ''Rejected'' then b_rejectionReason b else None),
          h_timestamp = now\<rparr>],
      u_approvedAt = (if b_status b = ''Approved'' then Some now else None),
      u_rejectionReason =
        (if b_status b = ''Approved'' then None
         else if b_status b = ''Rejected'' then b_rejectionReason b else None)\<rparr>"

definition updateLeaveStatus_read ::
    "int \<Rightarrow> user \<Rightarrow> objectId \<Rightarrow> decisionBody \<Rightarrow> db \<Rightarrow> failure + updateData" where
  "updateLeaveStatus_read now u i b d =
     (if b_status b \<notin> {''Approved'', ''Rejected''} then
        Inl (400, ''Invalid status. Must be Approved or Rejected'')
      else
        (case Leave_findOne i (user_institutionId u) d of
           None \<Rightarrow> Inl (404, ''Leave request not found'')
         | Some leave' \<Rightarrow>
             if status leave' \<noteq> ''ApprovedByParent'' then
               Inl (400, ''Only parent-approved requests can be approved/rejected by warden'')
             else Inr (updateLeaveStatus_updateData now u b leave')))"

text \<open>The second half: the write, and the response built from the updated document.\<close>

definition updateLeaveStatus_write ::
    "user \<Rightarrow> objectId \<Rightarrow> updateData \<Rightarrow> db \<Rightarrow> (failure + leave) \<times> db" where
  "updateLeaveStatus_write u i upd d =
     (case Leave_findOneAndUpdate i (user_institutionId u) upd d of
        (None, d') \<Rightarrow> (Inl (404, ''Leave request not found''), d')
      | (Some updated, d') \<Rightarrow>
          if student_name_readable updated d' then (Inr updated, d')
          else (Inl (500, ''Server error while updating leave request''), d'))"

definition updateLeaveStatus ::
    "int \<Rightarrow> user \<Rightarrow> objectId \<Rightarrow> decisionBody \<Rightarrow> db \<Rightarrow> (failure + leave) \<times> db" where
  "updateLeaveStatus now u i b d =
     (case updateLeaveStatus_read now u i b d of
        Inl e \<Rightarrow> (Inl e, d)
      | Inr upd \<Rightarrow> updateLeaveStatus_write u i upd d)"

definition cancelMyLeaveRequest :: "user \<Rightarrow> objectId \<Rightarrow> db \<Rightarrow> (failure + leave) \<times> db" where
  "cancelMyLeaveRequest u i d =
     (case Student_findOne (user_id u) (user_institutionId u) d of
        None \<Rightarrow> (Inl (404, ''Student profile not found''), d)
      | Some student' \<Rightarrow>
          (case Leave_findOne i (user_institutionId u) d of
             None \<Rightarrow> (Inl (404, ''Leave request not found''), d)
           | Some leave' \<Rightarrow>
               (case populate_studentId leave' d of
                  None \<Rightarrow> (Inl (500, ''Server error while cancelling leave request''), d)
                | Some st \<Rightarrow>
                    if s_id st \<noteq> s_id student' then
                      (Inl (403, ''Not authorized to cancel this leave request''), d)
                    else if status leave' \<notin> {''Pending'', ''PendingParent''} then
                      (Inl (400, ''Only pending requests (before parent/warden approval) can be cancelled''), d)
                    else
                      (Inr (leave'\<lparr>status := ''Cancelled''\<rparr>),
                       Leave_save (leave_id leave') (\<lambda>l. l\<lparr>status := ''Cancelled''\<rparr>) d))))"

subsection \<open>The transition table of the specification\<close>

text \<open>
  The events of the lifecycle, and the table of section 4.1 of the specification as it
  is worded there: the target state of an event in a state, \<open>None\<close> where the table has
  no edge. It is what the handlers are compared with.
\<close>

datatype event = parentDecide string | wardenDecide string | cancel

fun transition_table :: "string \<Rightarrow> event \<Rightarrow> string option" where
  "transition_table s (parentDecide dec) =
     (if s = ''PendingParent'' \<and> dec = ''Approved'' then Some ''ApprovedByParent''
      else if s = ''PendingParent'' \<and> dec = ''Rejected'' then Some ''RejectedByParent''
      else None)"
| "transition_table s (wardenDecide dec) =
     (if s = ''ApprovedByParent'' \<and> dec = ''Approved'' then Some ''Approved''
      else if s = ''ApprovedByParent'' \<and> dec = ''Rejected'' then Some ''Rejected''
      else None)"
| "transition_table s cancel =
     (if s = ''PendingParent'' then Some ''Cancelled'' else None)"

text \<open>Two consecutive statuses are an edge of the table, for one of its five events.\<close>

definition table_step :: "string \<Rightarrow> string \<Rightarrow> bool" where
  "table_step a b =
     (transition_table a (parentDecide ''Approved'') = Some b
      \<or> transition_table a (parentDecide ''Rejected'') = Some b
      \<or> transition_table a (wardenDecide ''Approved'') = Some b
      \<or> transition_table a (wardenDecide ''Rejected'') = Some b
      \<or> transition_table a cancel = Some b)"

fun legal_steps :: "string list \<Rightarrow> bool" where
  "legal_steps (a # b # rest) = (table_step a b \<and> legal_steps (b # rest))"
| "legal_steps _ = True"

text \<open>
  A leave's audit trail is sound when it starts with the creation entry, every two
  consecutive entries are an edge of the table, and the trail ends at the leave's
  status, unless the leave is cancelled.
\<close>

definition history_sound :: "leave \<Rightarrow> bool" where
  "history_sound l =
     (case statusHistory l of
        [] \<Rightarrow> False
      | e # es \<Rightarrow>
          h_status e = ''PendingParent'' \<and> h_role e = ''student''
          \<and> legal_steps (map h_status (statusHistory l))
          \<and> (status l = h_status (last (statusHistory l)) \<or> status l = ''Cancelled''))"

text \<open>
  The store keeps \<^verbatim>\<open>_id\<close> unique within the Leave collection; a sound database
  also has a sound trail on every leave.
\<close>

definition unique_ids :: "db \<Rightarrow> bool" where
  "unique_ids d = distinct (map leave_id (leaves d))"

definition db_sound :: "db \<Rightarrow> bool" where
  "db_sound d = (unique_ids d \<and> list_all history_sound (leaves d))"

subsection \<open>A small institution\<close>

text \<open>
  Institution 100 with a resident (user 1, student 10), the resident's guardian
  (user 2), a warden (user 3), a second resident (user 5, student 11) and that
  resident's guardian (user 6); user 4 belongs to institution 200. Leave 50 is the first
  resident's, as \<^verbatim>\<open>createLeaveRequest\<close> makes it at time 0.
\<close>

definition ex_resident :: user where
  "ex_resident = \<lparr>user_id = 1, user_institutionId = 100\<rparr>"

definition ex_guardian :: user where
  "ex_guardian = \<lparr>user_id = 2, user_institutionId = 100\<rparr>"

definition ex_warden :: user where
  "ex_warden = \<lparr>user_id = 3, user_institutionId = 100\<rparr>"

definition ex_outsider :: user where
  "ex_outsider = \<lparr>user_id = 4, user_institutionId = 200\<rparr>"

definition ex_other_resident :: user where
  "ex_other_resident = \<lparr>user_id = 5, user_institutionId = 100\<rparr>"

definition ex_other_guardian :: user where
  "ex_other_guardian = \<lparr>user_id = 6, user_institutionId = 100\<rparr>"

definition ex_leave :: leave where
  "ex_leave =
     \<lparr>leave_id = 50, studentId = 10, institutionId = 100, reason = ascii ''Home visit'',
      type = ''Personal'', outDate = Instant 10, inDate = Instant 12,
      outTime = None, inTime = None, status = ''PendingParent'',
      parentApprovalStatus = ''Pending'', parentApprovedBy = None, parentApprovedAt = None,
      parentRejectionReason = None, approvedBy = None, approvedAt = None,
      rejectionReason = None,
      statusHistory =
        [\<lparr>h_status = ''PendingParent'', h_updatedBy = None, h_role = ''student'',
          h_reason = None, h_timestamp = 0\<rparr>],
      createdAt = 0\<rparr>"

definition ex_empty_db :: db where
  "ex_empty_db =
     \<lparr>users = [1, 2, 3, 4, 5, 6],
      students =
        [\<lparr>s_id = 10, s_userId = 1, s_institutionId = 100\<rparr>,
         \<lparr>s_id = 11, s_userId = 5, s_institutionId = 100\<rparr>],
      parents =
        [\<lparr>p_id = 20, p_userId = 2, p_institutionId = 100, p_studentId = 10\<rparr>,
         \<lparr>p_id = 21, p_userId = 6, p_institutionId = 100, p_studentId = 11\<rparr>],
      leaves = []\<rparr>"

definition ex_db :: db where
  "ex_db = ex_empty_db\<lparr>leaves := [ex_leave]\<rparr>"

text \<open>The same database after the guardian approved leave 50 at time 1.\<close>

definition ex_leave_parent_approved :: leave where
  "ex_leave_parent_approved =
     ex_leave\<lparr>status := ''ApprovedByParent'', parentApprovalStatus := ''Approved'',
       parentApprovedBy := Some 2, parentApprovedAt := Some 1,
       statusHistory := statusHistory ex_leave @
         [\<lparr>h_status = ''ApprovedByParent'', h_updatedBy = Some 2, h_role = ''parent'',
           h_reason = None, h_timestamp = 1\<rparr>]\<rparr>"

definition ex_db_parent_approved :: db where
  "ex_db_parent_approved = ex_empty_db\<lparr>leaves := [ex_leave_parent_approved]\<rparr>"

text \<open>
  The database after the first resident's student document has been deleted (as
  \<^verbatim>\<open>deleteStudent\<close> does, which keeps the student's leaves): leave 50 refers to a
  student that no longer exists.
\<close>

definition ex_db_orphan :: db where
  "ex_db_orphan = ex_db\<lparr>students := [\<lparr>s_id = 11, s_userId = 5, s_institutionId = 100\<rparr>]\<rparr>"

text \<open>A record from before the guardian step existed, in the state named \<^verbatim>\<open>Pending\<close>.\<close>

definition ex_db_legacy :: db where
  "ex_db_legacy = ex_empty_db\<lparr>leaves := [ex_leave\<lparr>status := ''Pending''\<rparr>]\<rparr>"

definition ex_approve :: decisionBody where
  "ex_approve = \<lparr>b_status = ''Approved'', b_rejectionReason = None\<rparr>"

definition ex_reject :: decisionBody where
  "ex_reject = \<lparr>b_status = ''Rejected'', b_rejectionReason = Some ''Exams''\<rparr>"

definition ex_create :: createBody where
  "ex_create =
     \<lparr>b_reason = Some (ascii ''Home visit''), b_type = Some ''Personal'',
      b_outDate = Some (Instant 10), b_inDate = Some (Instant 12),
      b_outTime = None, b_inTime = None\<rparr>"

text \<open>A creation request whose reason is two spaces.\<close>

definition ex_create_blank :: createBody where
  "ex_create_blank = ex_create\<lparr>b_reason := Some [0x20, 0x20]\<rparr>"

text \<open>
  What two warden decisions on the guardian-approved leave 50 prepare when both read
  it before either writes: an approval at time 2, a rejection at time 3.
\<close>

definition ex_race_approve :: updateData where
  "ex_race_approve = updateLeaveStatus_updateData 2 ex_warden ex_approve ex_leave_parent_approved"

definition ex_race_reject :: updateData where
  "ex_race_reject = updateLeaveStatus_updateData 3 ex_warden ex_reject ex_leave_parent_approved"

text \<open>Two stand-ins for the schema: one accepts any document, one requires a reason.\<close>

definition schema_any :: "leave \<Rightarrow> bool" where
  "schema_any l = True"

definition schema_reason_required :: "leave \<Rightarrow> bool" where
  "schema_reason_required l = (reason l \<noteq> [])"

section \<open>Lemmas about the store\<close>

lemmas ex_defs = ex_resident_def ex_guardian_def ex_warden_def ex_outsider_def
  ex_other_resident_def ex_other_guardian_def ex_leave_def
  ex_empty_db_def ex_db_def ex_leave_parent_approved_def ex_db_parent_approved_def
  ex_db_legacy_def ex_db_orphan_def ex_create_blank_def ascii_def ex_approve_def ex_reject_def ex_create_def ex_race_approve_def
  ex_race_reject_def schema_any_def schema_reason_required_def

lemmas query_defs = Student_findOne_def Parent_findOne_def Leave_findOne_def Leave_findById_def
  populate_studentId_def student_name_readable_def Leave_save_def Leave_findOneAndUpdate_def

lemmas handler_defs = createLeaveRequest_def createLeaveRequest_document_def
  parentApproveOrReject_def parentApproveOrReject_writes_def
  updateLeaveStatus_def updateLeaveStatus_read_def updateLeaveStatus_write_def
  updateLeaveStatus_updateData_def applyUpdate_def cancelMyLeaveRequest_def
  getAllLeaveRequests_def falsy_def Let_def

lemma find_Some_mem: "find P xs = Some x \<Longrightarrow> x \<in> set xs \<and> P x"
  by (induction xs) (auto split: if_splits)

lemma updateFirst_none: "find P xs = None \<Longrightarrow> updateFirst P f xs = xs"
  by (induction xs) (auto split: if_splits)

lemma find_first_by_key:
  "distinct (map g xs) \<Longrightarrow> x \<in> set xs \<Longrightarrow> find (\<lambda>y. g y = g x) xs = Some x"
  by (induction xs) (auto simp: image_iff)

lemma map_updateFirst_key: "(\<And>x. g (f x) = g x) \<Longrightarrow> map g (updateFirst P f xs) = map g xs"
  by (induction xs) auto

lemma find_updateFirst_stable:
  "find P xs = Some x \<Longrightarrow> P (f x) \<Longrightarrow> find P (updateFirst P f xs) = Some (f x)"
  by (induction xs) (auto split: if_splits)

text \<open>With unique keys, a write to the first match is a write to the only match.\<close>

lemma updateFirst_unique:
  "distinct (map g xs) \<Longrightarrow>
     updateFirst (\<lambda>y. g y = k \<and> Q y) f xs = map (\<lambda>y. if g y = k \<and> Q y then f y else y) xs"
proof (induction xs)
  case Nil
  then show ?case by simp
next
  case (Cons a xs)
  then have rest: "g a = k \<Longrightarrow> map (\<lambda>y. if g y = k \<and> Q y then f y else y) xs = xs"
    by (auto simp: image_iff intro!: map_idI)
  from Cons show ?case by (auto simp: rest)
qed

lemma Leave_findOne_mem:
  "Leave_findOne i a d = Some l \<Longrightarrow> l \<in> set (leaves d) \<and> leave_id l = i \<and> institutionId l = a"
  by (auto simp: Leave_findOne_def dest: find_Some_mem)

lemma unique_ids_eq:
  "unique_ids d \<Longrightarrow> x \<in> set (leaves d) \<Longrightarrow> y \<in> set (leaves d) \<Longrightarrow> leave_id x = leave_id y \<Longrightarrow> x = y"
  by (auto simp: unique_ids_def distinct_map dest: inj_onD)

lemma Leave_save_unique:
  "unique_ids d \<Longrightarrow>
     leaves (Leave_save k f d) = map (\<lambda>y. if leave_id y = k then f y else y) (leaves d)"
  using updateFirst_unique [of leave_id "leaves d" k "\<lambda>_. True" f]
  by (simp add: Leave_save_def unique_ids_def)

lemma foreign_leave_not_found:
  assumes "unique_ids d" and "l \<in> set (leaves d)" and "institutionId l \<noteq> a"
  shows "Leave_findOne (leave_id l) a d = None"
proof (cases "Leave_findOne (leave_id l) a d")
  case None
  then show ?thesis .
next
  case (Some x)
  then have "x \<in> set (leaves d)" "leave_id x = leave_id l" "institutionId x = a"
    by (auto dest: Leave_findOne_mem)
  with assms have "x = l" by (auto dest: unique_ids_eq)
  with \<open>institutionId x = a\<close> assms(3) show ?thesis by simp
qed

lemma filter_map_frame:
  "(\<And>y. y \<in> set xs \<Longrightarrow> Q (h y) = Q y \<and> (Q y \<longrightarrow> h y = y)) \<Longrightarrow> filter Q (map h xs) = filter Q xs"
  by (induction xs) auto

lemma filter_updateFirst_frame:
  "(\<And>x. P x \<Longrightarrow> \<not> Q x \<and> \<not> Q (f x)) \<Longrightarrow> filter Q (updateFirst P f xs) = filter Q xs"
  by (induction xs) auto

lemma Leave_save_frame:
  assumes "unique_ids d" and "Leave_findOne i a d = Some l"
    and "\<And>x. institutionId (f x) = institutionId x"
  shows "filter (\<lambda>x. institutionId x \<noteq> a) (leaves (Leave_save (leave_id l) f d))
           = filter (\<lambda>x. institutionId x \<noteq> a) (leaves d)"
proof -
  from assms(2) have l: "l \<in> set (leaves d)" "institutionId l = a"
    by (auto dest: Leave_findOne_mem)
  have "filter (\<lambda>x. institutionId x \<noteq> a)
          (map (\<lambda>y. if leave_id y = leave_id l then f y else y) (leaves d))
        = filter (\<lambda>x. institutionId x \<noteq> a) (leaves d)"
  proof (rule filter_map_frame)
    fix y assume "y \<in> set (leaves d)"
    with assms(1) l have "leave_id y = leave_id l \<Longrightarrow> y = l"
      by (auto dest: unique_ids_eq)
    with l assms(3)
    show "(institutionId (if leave_id y = leave_id l then f y else y) \<noteq> a) = (institutionId y \<noteq> a)
          \<and> (institutionId y \<noteq> a \<longrightarrow> (if leave_id y = leave_id l then f y else y) = y)"
      by auto
  qed
  with assms(1) show ?thesis by (simp add: Leave_save_unique)
qed

lemma find_replaced:
  "P l' \<Longrightarrow> (\<And>y. P y \<Longrightarrow> g y = i) \<Longrightarrow> \<exists>x\<in>set xs. g x = i \<Longrightarrow>
     find P (map (\<lambda>y. if g y = i then l' else y) xs) = Some l'"
  by (induction xs) auto

lemma Leave_findOne_replaced:
  assumes "Leave_findOne i a d = Some l" and "leave_id l' = i" and "institutionId l' = a"
  shows "Leave_findOne i a (d\<lparr>leaves := map (\<lambda>y. if leave_id y = i then l' else y) (leaves d)\<rparr>)
           = Some l'"
proof -
  from assms(1) have "\<exists>x\<in>set (leaves d). leave_id x = i"
    by (auto dest: Leave_findOne_mem)
  with assms(2,3)
  have "find (\<lambda>x. leave_id x = i \<and> institutionId x = a)
          (map (\<lambda>y. if leave_id y = i then l' else y) (leaves d)) = Some l'"
    by (intro find_replaced) simp_all
  then show ?thesis by (simp add: Leave_findOne_def)
qed

section \<open>The outcomes of the handlers\<close>

text \<open>
  Each state-changing handler either rejects the call, returning the database as it
  was, or accepts it; the accepted case lists what the handler has checked by then.
\<close>

lemma populate_studentId_id: "populate_studentId l d = Some st \<Longrightarrow> s_id st = studentId l"
  by (auto simp: populate_studentId_def dest: find_Some_mem)

lemma parentApproveOrReject_cases:
  assumes "parentApproveOrReject now u i b d = r"
  obtains (rejected) e where "r = (Inl e, d)"
  | (accepted) p l st where
      "b_status b \<in> {''Approved'', ''Rejected''}"
      "Parent_findOne (user_id u) (user_institutionId u) d = Some p"
      "Leave_findOne i (user_institutionId u) d = Some l"
      "populate_studentId l d = Some st"
      "s_id st = p_studentId p"
      "status l = ''PendingParent''"
      "snd r = Leave_save (leave_id l) (parentApproveOrReject_writes now u b) d"
      "fst r = (case Leave_findById (leave_id l) (snd r) of
                  None \<Rightarrow> Inl (500, ''Server error while updating leave request'')
                | Some populated \<Rightarrow> Inr populated)"
  using assms
  by (auto simp: parentApproveOrReject_def Let_def split: if_splits option.splits)

lemma updateLeaveStatus_cases:
  assumes "updateLeaveStatus now u i b d = r"
  obtains (rejected) e where "r = (Inl e, d)"
  | (accepted) l where
      "b_status b \<in> {''Approved'', ''Rejected''}"
      "Leave_findOne i (user_institutionId u) d = Some l"
      "status l = ''ApprovedByParent''"
      "snd r = d\<lparr>leaves := updateFirst (\<lambda>x. leave_id x = i \<and> institutionId x = user_institutionId u)
                 (applyUpdate (updateLeaveStatus_updateData now u b l)) (leaves d)\<rparr>"
      "fst r = (if student_name_readable (applyUpdate (updateLeaveStatus_updateData now u b l) l) (snd r)
                then Inr (applyUpdate (updateLeaveStatus_updateData now u b l) l)
                else Inl (500, ''Server error while updating leave request''))"
  using assms
  by (auto simp: updateLeaveStatus_def updateLeaveStatus_read_def updateLeaveStatus_write_def
        Leave_findOneAndUpdate_def split: if_splits option.splits)

lemma cancelMyLeaveRequest_cases:
  assumes "cancelMyLeaveRequest u i d = r"
  obtains (rejected) e where "r = (Inl e, d)"
  | (accepted) s l st where
      "Student_findOne (user_id u) (user_institutionId u) d = Some s"
      "Leave_findOne i (user_institutionId u) d = Some l"
      "populate_studentId l d = Some st"
      "s_id st = s_id s"
      "status l \<in> {''Pending'', ''PendingParent''}"
      "r = (Inr (l\<lparr>status := ''Cancelled''\<rparr>),
            Leave_save (leave_id l) (\<lambda>l. l\<lparr>status := ''Cancelled''\<rparr>) d)"
  using assms
  by (auto simp: cancelMyLeaveRequest_def split: if_splits option.splits)

text \<open>No write changes the institution of a leave, so no write reaches another institution.\<close>

lemma institutionId_parent_writes [simp]:
  "institutionId (parentApproveOrReject_writes now u b l) = institutionId l"
  by (simp add: parentApproveOrReject_writes_def Let_def)

lemma institutionId_applyUpdate [simp]: "institutionId (applyUpdate upd l) = institutionId l"
  by (simp add: applyUpdate_def)

lemma parent_frame:
  assumes "unique_ids d"
  shows "filter (\<lambda>x. institutionId x \<noteq> user_institutionId u)
           (leaves (snd (parentApproveOrReject now u i b d)))
         = filter (\<lambda>x. institutionId x \<noteq> user_institutionId u) (leaves d)"
proof -
  obtain r where r: "parentApproveOrReject now u i b d = r" by simp
  then show ?thesis
  proof (cases rule: parentApproveOrReject_cases)
    case (rejected e)
    with r show ?thesis by simp
  next
    case (accepted p l st)
    with assms r show ?thesis by (simp add: Leave_save_frame)
  qed
qed

lemma warden_frame:
  "filter (\<lambda>x. institutionId x \<noteq> user_institutionId u)
           (leaves (snd (updateLeaveStatus now u i b d)))
         = filter (\<lambda>x. institutionId x \<noteq> user_institutionId u) (leaves d)"
proof -
  obtain r where r: "updateLeaveStatus now u i b d = r" by simp
  then show ?thesis
  proof (cases rule: updateLeaveStatus_cases)
    case (rejected e)
    with r show ?thesis by simp
  next
    case (accepted l)
    have "filter (\<lambda>x. institutionId x \<noteq> user_institutionId u)
            (updateFirst (\<lambda>x. leave_id x = i \<and> institutionId x = user_institutionId u)
               (applyUpdate (updateLeaveStatus_updateData now u b l)) (leaves d))
          = filter (\<lambda>x. institutionId x \<noteq> user_institutionId u) (leaves d)"
      by (rule filter_updateFirst_frame) simp
    with r accepted(4) show ?thesis by simp
  qed
qed

lemma cancel_frame:
  assumes "unique_ids d"
  shows "filter (\<lambda>x. institutionId x \<noteq> user_institutionId u)
           (leaves (snd (cancelMyLeaveRequest u i d)))
         = filter (\<lambda>x. institutionId x \<noteq> user_institutionId u) (leaves d)"
proof -
  obtain r where r: "cancelMyLeaveRequest u i d = r" by simp
  then show ?thesis
  proof (cases rule: cancelMyLeaveRequest_cases)
    case (rejected e)
    with r show ?thesis by simp
  next
    case (accepted s l st)
    with assms r show ?thesis by (simp add: Leave_save_frame)
  qed
qed

text \<open>A decision on a leave that is not in the state the handler asks for is rejected.\<close>

lemma parentApproveOrReject_wrong_state:
  "Leave_findOne i (user_institutionId u) d = Some x \<Longrightarrow> status x \<noteq> ''PendingParent'' \<Longrightarrow>
     \<exists>e. parentApproveOrReject now u i b d = (Inl e, d)"
  by (auto simp: parentApproveOrReject_def split: option.splits)

lemma updateLeaveStatus_wrong_state:
  "Leave_findOne i (user_institutionId u) d = Some x \<Longrightarrow> status x \<noteq> ''ApprovedByParent'' \<Longrightarrow>
     \<exists>m. updateLeaveStatus now u i b d = (Inl (400, m), d)"
  by (auto simp: updateLeaveStatus_def updateLeaveStatus_read_def)

lemma cancelMyLeaveRequest_wrong_state:
  "Leave_findOne i (user_institutionId u) d = Some x \<Longrightarrow> status x \<notin> {''Pending'', ''PendingParent''} \<Longrightarrow>
     \<exists>e. cancelMyLeaveRequest u i d = (Inl e, d)"
  by (auto simp: cancelMyLeaveRequest_def split: option.splits)

section \<open>Writes and the audit trail\<close>

lemma legal_steps_snoc:
  "legal_steps xs \<Longrightarrow> xs \<noteq> [] \<Longrightarrow> table_step (last xs) b \<Longrightarrow> legal_steps (xs @ [b])"
  by (induction xs rule: legal_steps.induct) auto

lemma history_sound_parent_writes:
  assumes "history_sound l" and "status l = ''PendingParent''"
    and "b_status b \<in> {''Approved'', ''Rejected''}"
  shows "history_sound (parentApproveOrReject_writes now u b l)"
proof -
  from assms(1) obtain e es where h: "statusHistory l = e # es"
    "h_status e = ''PendingParent''" "h_role e = ''student''"
    "legal_steps (map h_status (statusHistory l))"
    "status l = h_status (last (statusHistory l)) \<or> status l = ''Cancelled''"
    by (auto simp: history_sound_def split: list.splits)
  from h(1,5) assms(2) have lst: "last (map h_status (statusHistory l)) = ''PendingParent''"
    by (simp add: last_map)
  have step: "table_step ''PendingParent'' ''ApprovedByParent''"
    "table_step ''PendingParent'' ''RejectedByParent''"
    by (simp_all add: table_step_def)
  from h(1) have ne: "map h_status (statusHistory l) \<noteq> []" by simp
  from step lst legal_steps_snoc [OF h(4) ne]
  have "legal_steps (map h_status (statusHistory l) @ [''ApprovedByParent''])"
    and "legal_steps (map h_status (statusHistory l) @ [''RejectedByParent''])"
    by simp_all
  with h(1,2,3) show ?thesis
    by (simp add: history_sound_def parentApproveOrReject_writes_def Let_def)
qed

lemma history_sound_applyUpdate:
  assumes "history_sound l" and "status l = ''ApprovedByParent''"
    and "b_status b \<in> {''Approved'', ''Rejected''}"
  shows "history_sound (applyUpdate (updateLeaveStatus_updateData now u b l) l)"
proof -
  from assms(1) obtain e es where h: "statusHistory l = e # es"
    "h_status e = ''PendingParent''" "h_role e = ''student''"
    "legal_steps (map h_status (statusHistory l))"
    "status l = h_status (last (statusHistory l)) \<or> status l = ''Cancelled''"
    by (auto simp: history_sound_def split: list.splits)
  from h(1,5) assms(2) have lst: "last (map h_status (statusHistory l)) = ''ApprovedByParent''"
    by (simp add: last_map)
  have step: "table_step ''ApprovedByParent'' ''Approved''"
    "table_step ''ApprovedByParent'' ''Rejected''"
    by (simp_all add: table_step_def)
  from h(1) have ne: "map h_status (statusHistory l) \<noteq> []" by simp
  from step lst legal_steps_snoc [OF h(4) ne]
  have "legal_steps (map h_status (statusHistory l) @ [''Approved''])"
    and "legal_steps (map h_status (statusHistory l) @ [''Rejected''])"
    by simp_all
  with assms(3) h(1,2,3) show ?thesis
    by (auto simp: history_sound_def applyUpdate_def updateLeaveStatus_updateData_def)
qed

lemma history_sound_cancelled: "history_sound l \<Longrightarrow> history_sound (l\<lparr>status := ''Cancelled''\<rparr>)"
  by (auto simp: history_sound_def split: list.splits)

lemma leave_id_parent_writes [simp]:
  "leave_id (parentApproveOrReject_writes now u b l) = leave_id l"
  by (simp add: parentApproveOrReject_writes_def Let_def)

lemma leave_id_applyUpdate [simp]: "leave_id (applyUpdate upd l) = leave_id l"
  by (simp add: applyUpdate_def)

text \<open>The database after a write to the leave a call has loaded.\<close>

lemma Leave_save_loaded:
  assumes "unique_ids d" and "Leave_findOne i a d = Some l" and "\<And>x. leave_id (f x) = leave_id x"
  shows "leaves (Leave_save (leave_id l) f d) = map (\<lambda>y. if leave_id y = i then f l else y) (leaves d)"
    and "Leave_findById (leave_id l) (Leave_save (leave_id l) f d) = Some (f l)"
    and "unique_ids (Leave_save (leave_id l) f d)"
proof -
  from assms(2) have l: "l \<in> set (leaves d)" "leave_id l = i" "institutionId l = a"
    by (auto dest: Leave_findOne_mem)
  have only: "\<And>y. y \<in> set (leaves d) \<Longrightarrow> leave_id y = i \<Longrightarrow> y = l"
    using assms(1) l by (auto dest: unique_ids_eq)
  have "map (\<lambda>y. if leave_id y = leave_id l then f y else y) (leaves d)
      = map (\<lambda>y. if leave_id y = i then f l else y) (leaves d)"
  proof (rule map_cong [OF refl])
    fix y assume "y \<in> set (leaves d)"
    then have "leave_id y = i \<Longrightarrow> y = l" by (rule only)
    with l(2) show "(if leave_id y = leave_id l then f y else y) = (if leave_id y = i then f l else y)"
      by (cases "leave_id y = i") simp_all
  qed
  with assms(1) show "leaves (Leave_save (leave_id l) f d)
      = map (\<lambda>y. if leave_id y = i then f l else y) (leaves d)"
    by (simp add: Leave_save_unique)
  have byid: "find (\<lambda>x. leave_id x = leave_id l) (leaves d) = Some l"
    using assms(1) l(1) by (simp add: unique_ids_def find_first_by_key)
  show "Leave_findById (leave_id l) (Leave_save (leave_id l) f d) = Some (f l)"
    using find_updateFirst_stable [OF byid, of f] assms(3)
    by (simp add: Leave_findById_def Leave_save_def)
  show "unique_ids (Leave_save (leave_id l) f d)"
    using assms(1,3) by (simp add: unique_ids_def Leave_save_def map_updateFirst_key)
qed

lemma findOneAndUpdate_loaded:
  assumes "unique_ids d" and "Leave_findOne i a d = Some l" and "\<And>x. leave_id (f x) = leave_id x"
  shows "updateFirst (\<lambda>x. leave_id x = i \<and> institutionId x = a) f (leaves d)
           = map (\<lambda>y. if leave_id y = i then f l else y) (leaves d)"
proof -
  from assms(2) have l: "l \<in> set (leaves d)" "leave_id l = i" "institutionId l = a"
    by (auto dest: Leave_findOne_mem)
  have only: "\<And>y. y \<in> set (leaves d) \<Longrightarrow> leave_id y = i \<Longrightarrow> y = l"
    using assms(1) l by (auto dest: unique_ids_eq)
  have "map (\<lambda>y. if leave_id y = i \<and> institutionId y = a then f y else y) (leaves d)
      = map (\<lambda>y. if leave_id y = i then f l else y) (leaves d)"
  proof (rule map_cong [OF refl])
    fix y assume "y \<in> set (leaves d)"
    then have "leave_id y = i \<Longrightarrow> y = l" by (rule only)
    with l(3) show "(if leave_id y = i \<and> institutionId y = a then f y else y)
        = (if leave_id y = i then f l else y)"
      by (cases "leave_id y = i") simp_all
  qed
  with assms(1) show ?thesis
    using updateFirst_unique [of leave_id "leaves d" i "\<lambda>y. institutionId y = a" f]
    by (simp add: unique_ids_def)
qed

lemma db_sound_replace:
  assumes "db_sound d" and "leave_id l' = i" and "history_sound l'"
    and "leaves d' = map (\<lambda>y. if leave_id y = i then l' else y) (leaves d)"
  shows "db_sound d'"
proof -
  have "map leave_id (map (\<lambda>y. if leave_id y = i then l' else y) (leaves d)) = map leave_id (leaves d)"
    using assms(2) by (simp add: comp_def if_distrib cong: if_cong)
  then have "unique_ids d'"
    using assms(1,4) by (simp only: db_sound_def unique_ids_def)
  moreover have "list_all history_sound (map (\<lambda>y. if leave_id y = i then l' else y) (leaves d))"
    using assms(1,3) by (auto simp: db_sound_def list_all_iff)
  ultimately show ?thesis using assms(4) by (simp add: db_sound_def)
qed

lemma status_parent_writes:
  "status (parentApproveOrReject_writes now u b l) =
     (if b_status b = ''Approved'' then ''ApprovedByParent'' else ''RejectedByParent'')"
  by (simp add: parentApproveOrReject_writes_def Let_def)

lemma status_applyUpdate: "status (applyUpdate upd l) = u_status upd"
  by (simp add: applyUpdate_def)

lemma parentApproveOrReject_outcome:
  assumes "unique_ids d" and "Leave_findOne i (user_institutionId u) d = Some l"
  shows "(\<exists>e. parentApproveOrReject now u i b d = (Inl e, d))
       \<or> (status l = ''PendingParent'' \<and> b_status b \<in> {''Approved'', ''Rejected''}
          \<and> parentApproveOrReject now u i b d =
              (Inr (parentApproveOrReject_writes now u b l),
               d\<lparr>leaves := map (\<lambda>y. if leave_id y = i then parentApproveOrReject_writes now u b l else y)
                               (leaves d)\<rparr>))"
proof -
  obtain r where r: "parentApproveOrReject now u i b d = r" by simp
  then show ?thesis
  proof (cases rule: parentApproveOrReject_cases)
    case (rejected e)
    with r show ?thesis by simp
  next
    case (accepted p l0 st)
    with assms(2) have [simp]: "l0 = l" by simp
    note loaded = Leave_save_loaded [OF assms, of "parentApproveOrReject_writes now u b", simplified]
    from loaded(1) have db: "Leave_save (leave_id l) (parentApproveOrReject_writes now u b) d
        = d\<lparr>leaves := map (\<lambda>y. if leave_id y = i then parentApproveOrReject_writes now u b l else y)
                               (leaves d)\<rparr>"
      by (simp add: Leave_save_def)
    from accepted(7,8) loaded(2) have "r = (Inr (parentApproveOrReject_writes now u b l),
        Leave_save (leave_id l) (parentApproveOrReject_writes now u b) d)"
      by (simp add: prod_eq_iff)
    with r db accepted(1,6) show ?thesis by simp
  qed
qed

lemma updateLeaveStatus_outcome:
  assumes "unique_ids d" and "Leave_findOne i (user_institutionId u) d = Some l"
  shows "(\<exists>e. updateLeaveStatus now u i b d = (Inl e, d))
       \<or> (status l = ''ApprovedByParent'' \<and> b_status b \<in> {''Approved'', ''Rejected''}
          \<and> (\<exists>res \<in> {Inr (applyUpdate (updateLeaveStatus_updateData now u b l) l),
                       Inl (500, ''Server error while updating leave request'')}.
               updateLeaveStatus now u i b d =
                 (res,
                  d\<lparr>leaves := map (\<lambda>y. if leave_id y = i
                                      then applyUpdate (updateLeaveStatus_updateData now u b l) l else y)
                               (leaves d)\<rparr>)))"
proof -
  obtain r where r: "updateLeaveStatus now u i b d = r" by simp
  then show ?thesis
  proof (cases rule: updateLeaveStatus_cases)
    case (rejected e)
    with r show ?thesis by simp
  next
    case (accepted l0)
    with assms(2) have [simp]: "l0 = l" by simp
    note loaded = findOneAndUpdate_loaded
      [OF assms, of "applyUpdate (updateLeaveStatus_updateData now u b l)", simplified]
    from accepted(4) loaded have db: "snd r = d\<lparr>leaves := map (\<lambda>y. if leave_id y = i
                                      then applyUpdate (updateLeaveStatus_updateData now u b l) l else y)
                               (leaves d)\<rparr>"
      by simp
    from accepted(5) have "fst r = Inr (applyUpdate (updateLeaveStatus_updateData now u b l) l)
        \<or> fst r = Inl (500, ''Server error while updating leave request'')"
      by (simp split: if_splits)
    with db have "\<exists>res \<in> {Inr (applyUpdate (updateLeaveStatus_updateData now u b l) l),
                       Inl (500, ''Server error while updating leave request'')}.
               r = (res, d\<lparr>leaves := map (\<lambda>y. if leave_id y = i
                                      then applyUpdate (updateLeaveStatus_updateData now u b l) l else y)
                               (leaves d)\<rparr>)"
      by (auto simp: prod_eq_iff)
    with r accepted(1,3) show ?thesis by simp
  qed
qed

lemma cancelMyLeaveRequest_outcome:
  assumes "unique_ids d" and "Leave_findOne i (user_institutionId u) d = Some l"
  shows "(\<exists>e. cancelMyLeaveRequest u i d = (Inl e, d))
       \<or> (status l \<in> {''Pending'', ''PendingParent''}
          \<and> cancelMyLeaveRequest u i d =
              (Inr (l\<lparr>status := ''Cancelled''\<rparr>),
               d\<lparr>leaves := map (\<lambda>y. if leave_id y = i then l\<lparr>status := ''Cancelled''\<rparr> else y)
                               (leaves d)\<rparr>))"
proof -
  obtain r where r: "cancelMyLeaveRequest u i d = r" by simp
  then show ?thesis
  proof (cases rule: cancelMyLeaveRequest_cases)
    case (rejected e)
    with r show ?thesis by simp
  next
    case (accepted s l0 st)
    with assms(2) have [simp]: "l0 = l" by simp
    note loaded = Leave_save_loaded [OF assms, of "\<lambda>l. l\<lparr>status := ''Cancelled''\<rparr>", simplified]
    from loaded(1) have db: "Leave_save (leave_id l) (\<lambda>l. l\<lparr>status := ''Cancelled''\<rparr>) d
        = d\<lparr>leaves := map (\<lambda>y. if leave_id y = i then l\<lparr>status := ''Cancelled''\<rparr> else y) (leaves d)\<rparr>"
      by (simp add: Leave_save_def)
    with r accepted(5,6) show ?thesis by simp
  qed
qed

text \<open>Every handler keeps the database sound.\<close>

lemma db_sound_member: "db_sound d \<Longrightarrow> x \<in> set (leaves d) \<Longrightarrow> history_sound x"
  by (simp add: db_sound_def list_all_iff)

lemma parentApproveOrReject_sound:
  assumes "db_sound d"
  shows "db_sound (snd (parentApproveOrReject now u i b d))"
proof (cases "Leave_findOne i (user_institutionId u) d")
  case None
  with assms show ?thesis
    by (simp add: parentApproveOrReject_def split: option.splits)
next
  case (Some l)
  from assms have uniq: "unique_ids d" by (simp add: db_sound_def)
  from Some have l: "l \<in> set (leaves d)" "leave_id l = i" by (auto dest: Leave_findOne_mem)
  from parentApproveOrReject_outcome [OF uniq Some, of now b] show ?thesis
  proof
    assume "\<exists>e. parentApproveOrReject now u i b d = (Inl e, d)"
    with assms show ?thesis by auto
  next
    assume acc: "status l = ''PendingParent'' \<and> b_status b \<in> {''Approved'', ''Rejected''}
          \<and> parentApproveOrReject now u i b d =
              (Inr (parentApproveOrReject_writes now u b l),
               d\<lparr>leaves := map (\<lambda>y. if leave_id y = i then parentApproveOrReject_writes now u b l else y)
                               (leaves d)\<rparr>)"
    from assms l(1) have "history_sound l" by (rule db_sound_member)
    with acc have hs: "history_sound (parentApproveOrReject_writes now u b l)"
      by (intro history_sound_parent_writes) simp_all
    from acc have eq: "leaves (snd (parentApproveOrReject now u i b d)) =
        map (\<lambda>y. if leave_id y = i then parentApproveOrReject_writes now u b l else y) (leaves d)"
      by simp
    show ?thesis
      by (rule db_sound_replace [OF assms _ hs eq]) (simp add: l(2))
  qed
qed

lemma updateLeaveStatus_sound:
  assumes "db_sound d"
  shows "db_sound (snd (updateLeaveStatus now u i b d))"
proof (cases "Leave_findOne i (user_institutionId u) d")
  case None
  with assms show ?thesis
    by (simp add: updateLeaveStatus_def updateLeaveStatus_read_def)
next
  case (Some l)
  from assms have uniq: "unique_ids d" by (simp add: db_sound_def)
  from Some have l: "l \<in> set (leaves d)" "leave_id l = i" by (auto dest: Leave_findOne_mem)
  from updateLeaveStatus_outcome [OF uniq Some, of now b] show ?thesis
  proof
    assume "\<exists>e. updateLeaveStatus now u i b d = (Inl e, d)"
    with assms show ?thesis by auto
  next
    assume acc: "status l = ''ApprovedByParent'' \<and> b_status b \<in> {''Approved'', ''Rejected''}
          \<and> (\<exists>res \<in> {Inr (applyUpdate (updateLeaveStatus_updateData now u b l) l),
                       Inl (500, ''Server error while updating leave request'')}.
               updateLeaveStatus now u i b d =
                 (res,
                  d\<lparr>leaves := map (\<lambda>y. if leave_id y = i
                                      then applyUpdate (updateLeaveStatus_updateData now u b l) l else y)
                               (leaves d)\<rparr>))"
    from assms l(1) have "history_sound l" by (rule db_sound_member)
    with acc have hs: "history_sound (applyUpdate (updateLeaveStatus_updateData now u b l) l)"
      by (intro history_sound_applyUpdate) simp_all
    from acc have eq: "leaves (snd (updateLeaveStatus now u i b d)) =
        map (\<lambda>y. if leave_id y = i
                  then applyUpdate (updateLeaveStatus_updateData now u b l) l else y) (leaves d)"
      by auto
    show ?thesis
      by (rule db_sound_replace [OF assms _ hs eq]) (simp add: l(2))
  qed
qed

lemma cancelMyLeaveRequest_sound:
  assumes "db_sound d"
  shows "db_sound (snd (cancelMyLeaveRequest u i d))"
proof (cases "Leave_findOne i (user_institutionId u) d")
  case None
  with assms show ?thesis
    by (simp add: cancelMyLeaveRequest_def split: option.splits)
next
  case (Some l)
  from assms have uniq: "unique_ids d" by (simp add: db_sound_def)
  from Some have l: "l \<in> set (leaves d)" "leave_id l = i" by (auto dest: Leave_findOne_mem)
  from cancelMyLeaveRequest_outcome [OF uniq Some] show ?thesis
  proof
    assume "\<exists>e. cancelMyLeaveRequest u i d = (Inl e, d)"
    with assms show ?thesis by auto
  next
    assume acc: "status l \<in> {''Pending'', ''PendingParent''}
          \<and> cancelMyLeaveRequest u i d =
              (Inr (l\<lparr>status := ''Cancelled''\<rparr>),
               d\<lparr>leaves := map (\<lambda>y. if leave_id y = i then l\<lparr>status := ''Cancelled''\<rparr> else y)
                               (leaves d)\<rparr>)"
    from assms l(1) have "history_sound l" by (rule db_sound_member)
    then have hs: "history_sound (l\<lparr>status := ''Cancelled''\<rparr>)"
      by (rule history_sound_cancelled)
    from acc have eq: "leaves (snd (cancelMyLeaveRequest u i d)) =
        map (\<lambda>y. if leave_id y = i then l\<lparr>status := ''Cancelled''\<rparr> else y) (leaves d)"
      by simp
    show ?thesis
      by (rule db_sound_replace [OF assms _ hs eq]) (simp add: l(2))
  qed
qed

lemma createLeaveRequest_db:
  "snd (createLeaveRequest schemaAccepts newId now u b d) = d
   \<or> (\<exists>st r t out in'. 
         snd (createLeaveRequest schemaAccepts newId now u b d) =
           d\<lparr>leaves := leaves d @ [createLeaveRequest_document newId now u b st r t out in']\<rparr>
         \<and> newId \<notin> set (map leave_id (leaves d)))"
  by (simp add: createLeaveRequest_def Let_def split: option.splits) blast

lemma history_sound_created:
  "history_sound (createLeaveRequest_document newId now u b st r t out in')"
  by (simp add: history_sound_def createLeaveRequest_document_def)

lemma createLeaveRequest_sound:
  assumes "db_sound d"
  shows "db_sound (snd (createLeaveRequest schemaAccepts newId now u b d))"
  using createLeaveRequest_db [of schemaAccepts newId now u b d]
proof
  assume "snd (createLeaveRequest schemaAccepts newId now u b d) = d"
  with assms show ?thesis by simp
next
  assume "\<exists>st r t out in'. 
         snd (createLeaveRequest schemaAccepts newId now u b d) =
           d\<lparr>leaves := leaves d @ [createLeaveRequest_document newId now u b st r t out in']\<rparr>
         \<and> newId \<notin> set (map leave_id (leaves d))"
  then obtain st r t out in' where l:
    "snd (createLeaveRequest schemaAccepts newId now u b d) =
           d\<lparr>leaves := leaves d @ [createLeaveRequest_document newId now u b st r t out in']\<rparr>"
    "newId \<notin> set (map leave_id (leaves d))"
    by blast
  have "leave_id (createLeaveRequest_document newId now u b st r t out in') = newId"
    by (simp add: createLeaveRequest_document_def)
  with l assms show ?thesis
    by (simp add: db_sound_def unique_ids_def history_sound_created)
qed

lemma student_name_readable_leaves [simp]:
  "student_name_readable (applyUpdate upd l) (d\<lparr>leaves := xs\<rparr>) = student_name_readable l d"
  by (simp add: student_name_readable_def populate_studentId_def applyUpdate_def split: option.splits)

text \<open>The warden's write on a store with unique ids, whatever the status of the leave.\<close>

lemma updateLeaveStatus_write_loaded:
  assumes "unique_ids d" and "Leave_findOne i (user_institutionId u) d = Some l"
  shows "updateLeaveStatus_write u i upd d =
           (if student_name_readable l d then Inr (applyUpdate upd l)
            else Inl (500, ''Server error while updating leave request''),
            d\<lparr>leaves := map (\<lambda>y. if leave_id y = i then applyUpdate upd l else y) (leaves d)\<rparr>)"
  using assms(2) findOneAndUpdate_loaded [OF assms, of "applyUpdate upd", simplified]
  by (simp add: updateLeaveStatus_write_def Leave_findOneAndUpdate_def)

lemma unique_ids_replaced:
  "unique_ids d \<Longrightarrow> leave_id l' = i \<Longrightarrow>
     unique_ids (d\<lparr>leaves := map (\<lambda>y. if leave_id y = i then l' else y) (leaves d)\<rparr>)"
  by (simp add: unique_ids_def comp_def if_distrib cong: if_cong)

lemma replaced_twice:
  "leave_id a = i \<Longrightarrow>
     map (\<lambda>y. if leave_id y = i then c else y) (map (\<lambda>y. if leave_id y = i then a else y) xs)
       = map (\<lambda>y. if leave_id y = i then c else y) xs"
  by (induction xs) auto

section \<open>The status moves along the transition table\<close>

text \<open>
  Claim C1, as the handlers have it. Let the call address a leave \<open>l\<close> of the caller's
  institution, in a store with unique ids. A guardian decision, a warden decision and a
  cancellation each either reject the call and return the database as it was, or
  replace \<open>l\<close> by a leave whose status is the target that the transition table gives
  for the status of \<open>l\<close> and the event, every other leave staying as it is. The one
  addition to the table is in the cancellation, which is also accepted from the older
  state \<^verbatim>\<open>Pending\<close>. Where the table has no edge (and, for a cancellation, the status is
  not \<^verbatim>\<open>Pending\<close>) the call is rejected; it is rejected with the invalid-state response
  of its handler whenever it passes the checks that come before the state check. And a
  sound database stays sound under the four handlers: every audit trail they build
  starts with the creation entry and follows edges of the table.
\<close>

theorem C1_status_moves_along_edges:
  assumes "unique_ids d" and "Leave_findOne i (user_institutionId u) d = Some l"
  shows
    "((\<exists>e. parentApproveOrReject now u i b d = (Inl e, d))
       \<or> (\<exists>l'. transition_table (status l) (parentDecide (b_status b)) = Some (status l')
             \<and> parentApproveOrReject now u i b d =
                 (Inr l', d\<lparr>leaves := map (\<lambda>y. if leave_id y = i then l' else y) (leaves d)\<rparr>)))
   \<and> ((\<exists>e. updateLeaveStatus now u i b d = (Inl e, d))
       \<or> (\<exists>l'. transition_table (status l) (wardenDecide (b_status b)) = Some (status l')
             \<and> (\<exists>res \<in> {Inr l', Inl (500, ''Server error while updating leave request'')}.
                  updateLeaveStatus now u i b d =
                    (res, d\<lparr>leaves := map (\<lambda>y. if leave_id y = i then l' else y) (leaves d)\<rparr>))))
   \<and> ((\<exists>e. cancelMyLeaveRequest u i d = (Inl e, d))
       \<or> (\<exists>l'. (transition_table (status l) cancel = Some (status l')
                \<or> status l = ''Pending'' \<and> status l' = ''Cancelled'')
             \<and> cancelMyLeaveRequest u i d =
                 (Inr l', d\<lparr>leaves := map (\<lambda>y. if leave_id y = i then l' else y) (leaves d)\<rparr>)))
   \<and> (transition_table (status l) (parentDecide (b_status b)) = None \<longrightarrow>
        (\<exists>e. parentApproveOrReject now u i b d = (Inl e, d)))
   \<and> (transition_table (status l) (wardenDecide (b_status b)) = None \<longrightarrow>
        (\<exists>e. updateLeaveStatus now u i b d = (Inl e, d)))
   \<and> (transition_table (status l) cancel = None \<and> status l \<noteq> ''Pending'' \<longrightarrow>
        (\<exists>e. cancelMyLeaveRequest u i d = (Inl e, d)))
   \<and> (b_status b \<in> {''Approved'', ''Rejected''} \<and> status l \<noteq> ''PendingParent''
        \<and> (\<exists>p st. Parent_findOne (user_id u) (user_institutionId u) d = Some p
               \<and> populate_studentId l d = Some st \<and> s_id st = p_studentId p) \<longrightarrow>
        parentApproveOrReject now u i b d =
          (Inl (400, ''This leave request is not awaiting parent approval''), d))
   \<and> (b_status b \<in> {''Approved'', ''Rejected''} \<and> status l \<noteq> ''ApprovedByParent'' \<longrightarrow>
        updateLeaveStatus now u i b d =
          (Inl (400, ''Only parent-approved requests can be approved/rejected by warden''), d))
   \<and> (status l \<notin> {''Pending'', ''PendingParent''}
        \<and> (\<exists>s st. Student_findOne (user_id u) (user_institutionId u) d = Some s
               \<and> populate_studentId l d = Some st \<and> s_id st = s_id s) \<longrightarrow>
        cancelMyLeaveRequest u i d =
          (Inl (400, ''Only pending requests (before parent/warden approval) can be cancelled''), d))
   \<and> (db_sound d \<longrightarrow>
        db_sound (snd (parentApproveOrReject now u i b d))
        \<and> db_sound (snd (updateLeaveStatus now u i b d))
        \<and> db_sound (snd (cancelMyLeaveRequest u i d))
        \<and> db_sound (snd (createLeaveRequest schemaAccepts newId now u cb d)))"
proof -
  have guardian: "(\<exists>e. parentApproveOrReject now u i b d = (Inl e, d))
       \<or> (\<exists>l'. transition_table (status l) (parentDecide (b_status b)) = Some (status l')
             \<and> parentApproveOrReject now u i b d =
                 (Inr l', d\<lparr>leaves := map (\<lambda>y. if leave_id y = i then l' else y) (leaves d)\<rparr>))"
    using parentApproveOrReject_outcome [OF assms, of now b]
  proof
    assume "\<exists>e. parentApproveOrReject now u i b d = (Inl e, d)"
    then show ?thesis ..
  next
    assume acc: "status l = ''PendingParent'' \<and> b_status b \<in> {''Approved'', ''Rejected''}
          \<and> parentApproveOrReject now u i b d =
              (Inr (parentApproveOrReject_writes now u b l),
               d\<lparr>leaves := map (\<lambda>y. if leave_id y = i then parentApproveOrReject_writes now u b l else y)
                               (leaves d)\<rparr>)"
    then have "transition_table (status l) (parentDecide (b_status b))
        = Some (status (parentApproveOrReject_writes now u b l))"
      by (auto simp: status_parent_writes)
    with acc show ?thesis by blast
  qed
  have warden: "(\<exists>e. updateLeaveStatus now u i b d = (Inl e, d))
       \<or> (\<exists>l'. transition_table (status l) (wardenDecide (b_status b)) = Some (status l')
             \<and> (\<exists>res \<in> {Inr l', Inl (500, ''Server error while updating leave request'')}.
                  updateLeaveStatus now u i b d =
                    (res, d\<lparr>leaves := map (\<lambda>y. if leave_id y = i then l' else y) (leaves d)\<rparr>)))"
    using updateLeaveStatus_outcome [OF assms, of now b]
  proof
    assume "\<exists>e. updateLeaveStatus now u i b d = (Inl e, d)"
    then show ?thesis ..
  next
    assume acc: "status l = ''ApprovedByParent'' \<and> b_status b \<in> {''Approved'', ''Rejected''}
          \<and> (\<exists>res \<in> {Inr (applyUpdate (updateLeaveStatus_updateData now u b l) l),
                       Inl (500, ''Server error while updating leave request'')}.
               updateLeaveStatus now u i b d =
                 (res,
                  d\<lparr>leaves := map (\<lambda>y. if leave_id y = i
                                      then applyUpdate (updateLeaveStatus_updateData now u b l) l else y)
                               (leaves d)\<rparr>))"
    then have "transition_table (status l) (wardenDecide (b_status b))
        = Some (status (applyUpdate (updateLeaveStatus_updateData now u b l) l))"
      by (auto simp: status_applyUpdate updateLeaveStatus_updateData_def)
    with acc show ?thesis by blast
  qed
  have cancelling: "(\<exists>e. cancelMyLeaveRequest u i d = (Inl e, d))
       \<or> (\<exists>l'. (transition_table (status l) cancel = Some (status l')
                \<or> status l = ''Pending'' \<and> status l' = ''Cancelled'')
             \<and> cancelMyLeaveRequest u i d =
                 (Inr l', d\<lparr>leaves := map (\<lambda>y. if leave_id y = i then l' else y) (leaves d)\<rparr>))"
    using cancelMyLeaveRequest_outcome [OF assms]
  proof
    assume "\<exists>e. cancelMyLeaveRequest u i d = (Inl e, d)"
    then show ?thesis ..
  next
    assume acc: "status l \<in> {''Pending'', ''PendingParent''}
          \<and> cancelMyLeaveRequest u i d =
              (Inr (l\<lparr>status := ''Cancelled''\<rparr>),
               d\<lparr>leaves := map (\<lambda>y. if leave_id y = i then l\<lparr>status := ''Cancelled''\<rparr> else y)
                               (leaves d)\<rparr>)"
    then have "transition_table (status l) cancel = Some (status (l\<lparr>status := ''Cancelled''\<rparr>))
        \<or> status l = ''Pending'' \<and> status (l\<lparr>status := ''Cancelled''\<rparr>) = ''Cancelled''"
      by auto
    with acc show ?thesis by blast
  qed
  have no_edge_guardian: "transition_table (status l) (parentDecide (b_status b)) = None \<longrightarrow>
        (\<exists>e. parentApproveOrReject now u i b d = (Inl e, d))"
    using guardian by auto
  have no_edge_warden: "transition_table (status l) (wardenDecide (b_status b)) = None \<longrightarrow>
        (\<exists>e. updateLeaveStatus now u i b d = (Inl e, d))"
    using warden by auto
  have no_edge_cancel: "transition_table (status l) cancel = None \<and> status l \<noteq> ''Pending'' \<longrightarrow>
        (\<exists>e. cancelMyLeaveRequest u i d = (Inl e, d))"
    using cancelling by auto
  have invalid_guardian: "b_status b \<in> {''Approved'', ''Rejected''} \<and> status l \<noteq> ''PendingParent''
        \<and> (\<exists>p st. Parent_findOne (user_id u) (user_institutionId u) d = Some p
               \<and> populate_studentId l d = Some st \<and> s_id st = p_studentId p) \<longrightarrow>
        parentApproveOrReject now u i b d =
          (Inl (400, ''This leave request is not awaiting parent approval''), d)"
    using assms(2) by (auto simp: parentApproveOrReject_def)
  have invalid_warden: "b_status b \<in> {''Approved'', ''Rejected''} \<and> status l \<noteq> ''ApprovedByParent'' \<longrightarrow>
        updateLeaveStatus now u i b d =
          (Inl (400, ''Only parent-approved requests can be approved/rejected by warden''), d)"
    using assms(2) by (auto simp: updateLeaveStatus_def updateLeaveStatus_read_def)
  have invalid_cancel: "status l \<notin> {''Pending'', ''PendingParent''}
        \<and> (\<exists>s st. Student_findOne (user_id u) (user_institutionId u) d = Some s
               \<and> populate_studentId l d = Some st \<and> s_id st = s_id s) \<longrightarrow>
        cancelMyLeaveRequest u i d =
          (Inl (400, ''Only pending requests (before parent/warden approval) can be cancelled''), d)"
    using assms(2) by (auto simp: cancelMyLeaveRequest_def)
  have sound: "db_sound d \<longrightarrow>
        db_sound (snd (parentApproveOrReject now u i b d))
        \<and> db_sound (snd (updateLeaveStatus now u i b d))
        \<and> db_sound (snd (cancelMyLeaveRequest u i d))
        \<and> db_sound (snd (createLeaveRequest schemaAccepts newId now u cb d))"
    by (simp add: parentApproveOrReject_sound updateLeaveStatus_sound cancelMyLeaveRequest_sound
          createLeaveRequest_sound)
  from guardian warden cancelling no_edge_guardian no_edge_warden no_edge_cancel
    invalid_guardian invalid_warden invalid_cancel sound
  show ?thesis by (intro conjI)
qed

text \<open>
  The handlers on the small institution: the guardian's approval of leave 50 is an edge
  and keeps the database sound, the warden's approval before it and the owner's
  cancellation after it are rejected as invalid in that state.
\<close>

theorem C1_witness:
  "unique_ids ex_db
   \<and> db_sound ex_db
   \<and> Leave_findOne 50 (user_institutionId ex_guardian) ex_db = Some ex_leave
   \<and> transition_table (status ex_leave) (parentDecide (b_status ex_approve)) = Some ''ApprovedByParent''
   \<and> parentApproveOrReject 1 ex_guardian 50 ex_approve ex_db =
       (Inr ex_leave_parent_approved, ex_db_parent_approved)
   \<and> db_sound ex_db_parent_approved
   \<and> Leave_findOne 50 (user_institutionId ex_warden) ex_db = Some ex_leave
   \<and> transition_table (status ex_leave) (wardenDecide (b_status ex_approve)) = None
   \<and> updateLeaveStatus 2 ex_warden 50 ex_approve ex_db =
       (Inl (400, ''Only parent-approved requests can be approved/rejected by warden''), ex_db)
   \<and> Leave_findOne 50 (user_institutionId ex_resident) ex_db_parent_approved = Some ex_leave_parent_approved
   \<and> transition_table (status ex_leave_parent_approved) cancel = None
   \<and> status ex_leave_parent_approved \<notin> {''Pending'', ''PendingParent''}
   \<and> cancelMyLeaveRequest ex_resident 50 ex_db_parent_approved =
       (Inl (400, ''Only pending requests (before parent/warden approval) can be cancelled''),
        ex_db_parent_approved)"
proof -
  have uniq: "unique_ids ex_db" "unique_ids ex_db_parent_approved"
    by (simp_all add: unique_ids_def ex_defs)
  have sound: "db_sound ex_db"
    by (simp add: db_sound_def unique_ids_def history_sound_def ex_defs)
  have found: "Leave_findOne 50 (user_institutionId ex_guardian) ex_db = Some ex_leave"
    "Leave_findOne 50 (user_institutionId ex_warden) ex_db = Some ex_leave"
    "Leave_findOne 50 (user_institutionId ex_resident) ex_db_parent_approved = Some ex_leave_parent_approved"
    by (simp_all add: Leave_findOne_def ex_defs)
  have edges: "transition_table (status ex_leave) (parentDecide (b_status ex_approve)) = Some ''ApprovedByParent''"
    "transition_table (status ex_leave) (wardenDecide (b_status ex_approve)) = None"
    "transition_table (status ex_leave_parent_approved) cancel = None"
    "status ex_leave_parent_approved \<notin> {''Pending'', ''PendingParent''}"
    "b_status ex_approve \<in> {''Approved'', ''Rejected''}"
    "status ex_leave \<noteq> ''ApprovedByParent''"
    by (simp_all add: ex_defs)
  have owner: "\<exists>s st. Student_findOne (user_id ex_resident) (user_institutionId ex_resident)
                  ex_db_parent_approved = Some s
               \<and> populate_studentId ex_leave_parent_approved ex_db_parent_approved = Some st
               \<and> s_id st = s_id s"
    by (simp add: query_defs ex_defs)
  have accepted: "parentApproveOrReject 1 ex_guardian 50 ex_approve ex_db =
       (Inr ex_leave_parent_approved, ex_db_parent_approved)"
    by (simp add: handler_defs query_defs ex_defs)
  note guardian = C1_status_moves_along_edges [OF uniq(1) found(1), of 1 ex_approve schema_any 0 ex_create]
  note warden = C1_status_moves_along_edges [OF uniq(1) found(2), of 2 ex_approve schema_any 0 ex_create]
  note resident = C1_status_moves_along_edges [OF uniq(2) found(3), of 3 ex_approve schema_any 0 ex_create]
  from guardian sound have "db_sound (snd (parentApproveOrReject 1 ex_guardian 50 ex_approve ex_db))"
    by blast
  with accepted have sound': "db_sound ex_db_parent_approved" by simp
  from warden edges(5,6) have rejected: "updateLeaveStatus 2 ex_warden 50 ex_approve ex_db =
       (Inl (400, ''Only parent-approved requests can be approved/rejected by warden''), ex_db)"
    by blast
  from resident edges(4) owner have rejected': "cancelMyLeaveRequest ex_resident 50 ex_db_parent_approved =
       (Inl (400, ''Only pending requests (before parent/warden approval) can be cancelled''),
        ex_db_parent_approved)"
    by blast
  from uniq(1) sound found edges(1-4) accepted sound' rejected rejected'
  show ?thesis by (intro conjI)
qed

text \<open>
  The table has no edge for a cancellation in the state \<^verbatim>\<open>Pending\<close>, and the handler
  cancels such a leave.
\<close>

theorem C1_counterexample:
  "Leave_findOne 50 (user_institutionId ex_resident) ex_db_legacy = Some (ex_leave\<lparr>status := ''Pending''\<rparr>)
   \<and> transition_table ''Pending'' cancel = None
   \<and> cancelMyLeaveRequest ex_resident 50 ex_db_legacy =
       (Inr (ex_leave\<lparr>status := ''Cancelled''\<rparr>),
        ex_empty_db\<lparr>leaves := [ex_leave\<lparr>status := ''Cancelled''\<rparr>]\<rparr>)"
  by (simp add: handler_defs query_defs ex_defs)

section \<open>One audit entry per transition\<close>

text \<open>
  Claim C2 asks that every successful transition, the owner's cancellation among
  them, appends exactly one entry to \<^verbatim>\<open>statusHistory\<close>. The cancellation appends none:
  whatever it is called with, every \<^verbatim>\<open>statusHistory\<close> of the store is the same
  afterwards. On the small institution the owner's cancellation of leave 50 succeeds
  and leaves the trail at its one entry, where the guardian's approval of the same
  leave adds one.
\<close>

theorem C2_cancel_appends_no_entry:
  "map statusHistory (leaves (snd (cancelMyLeaveRequest u i d))) = map statusHistory (leaves d)
   \<and> cancelMyLeaveRequest ex_resident 50 ex_db =
       (Inr (ex_leave\<lparr>status := ''Cancelled''\<rparr>),
        ex_empty_db\<lparr>leaves := [ex_leave\<lparr>status := ''Cancelled''\<rparr>]\<rparr>)
   \<and> length (statusHistory (ex_leave\<lparr>status := ''Cancelled''\<rparr>)) = length (statusHistory ex_leave)
   \<and> parentApproveOrReject 1 ex_guardian 50 ex_approve ex_db =
       (Inr ex_leave_parent_approved, ex_db_parent_approved)
   \<and> length (statusHistory ex_leave_parent_approved) = length (statusHistory ex_leave) + 1"
proof -
  obtain r where r: "cancelMyLeaveRequest u i d = r" by simp
  then have "map statusHistory (leaves (snd (cancelMyLeaveRequest u i d))) = map statusHistory (leaves d)"
  proof (cases rule: cancelMyLeaveRequest_cases)
    case (rejected e)
    with r show ?thesis by simp
  next
    case (accepted s l st)
    with r show ?thesis by (simp add: Leave_save_def map_updateFirst_key)
  qed
  moreover have "cancelMyLeaveRequest ex_resident 50 ex_db =
       (Inr (ex_leave\<lparr>status := ''Cancelled''\<rparr>),
        ex_empty_db\<lparr>leaves := [ex_leave\<lparr>status := ''Cancelled''\<rparr>]\<rparr>)"
    by (simp add: handler_defs query_defs ex_defs)
  moreover have "parentApproveOrReject 1 ex_guardian 50 ex_approve ex_db =
       (Inr ex_leave_parent_approved, ex_db_parent_approved)"
    by (simp add: handler_defs query_defs ex_defs)
  moreover have "length (statusHistory ex_leave_parent_approved) = length (statusHistory ex_leave) + 1"
    by (simp add: ex_defs)
  ultimately show ?thesis by simp
qed

section \<open>What a rejection writes\<close>

text \<open>
  Claim C3, as the handlers have it. An accepted guardian rejection of the loaded
  leave sets \<^verbatim>\<open>status\<close> to \<^verbatim>\<open>RejectedByParent\<close>, \<^verbatim>\<open>parentApprovalStatus\<close> to \<^verbatim>\<open>Rejected\<close>,
  \<^verbatim>\<open>parentApprovedBy\<close> to the caller, \<^verbatim>\<open>parentApprovedAt\<close> to the time of the call and
  \<^verbatim>\<open>parentRejectionReason\<close> to the reason given, appends one entry to the trail, and
  changes nothing else. An accepted warden rejection sets \<^verbatim>\<open>status\<close> to \<^verbatim>\<open>Rejected\<close>,
  \<^verbatim>\<open>approvedBy\<close> to the caller and \<^verbatim>\<open>rejectionReason\<close> to the reason given, appends one
  entry, and changes nothing else; \<^verbatim>\<open>approvedAt\<close> in particular stays.
\<close>

theorem C3_rejection_writes:
  assumes "unique_ids d" and "Leave_findOne i (user_institutionId u) d = Some l"
    and "b_status b = ''Rejected''"
  shows
    "(\<forall>l'. fst (parentApproveOrReject now u i b d) = Inr l' \<longrightarrow>
        l' = l\<lparr>status := ''RejectedByParent'',
               parentApprovalStatus := ''Rejected'',
               parentApprovedBy := Some (user_id u),
               parentApprovedAt := Some now,
               parentRejectionReason := b_rejectionReason b,
               statusHistory := statusHistory l @
                 [\<lparr>h_status = ''RejectedByParent'', h_updatedBy = Some (user_id u),
                   h_role = ''parent'', h_reason = b_rejectionReason b, h_timestamp = now\<rparr>]\<rparr>)
   \<and> (\<forall>l'. fst (updateLeaveStatus now u i b d) = Inr l' \<longrightarrow>
        l' = l\<lparr>status := ''Rejected'',
               approvedBy := Some (user_id u),
               rejectionReason := rejectionReason l',
               statusHistory := statusHistory l @
                 [\<lparr>h_status = ''Rejected'', h_updatedBy = Some (user_id u),
                   h_role = ''warden'', h_reason = b_rejectionReason b, h_timestamp = now\<rparr>]\<rparr>
        \<and> (\<forall>r. b_rejectionReason b = Some r \<longrightarrow> rejectionReason l' = Some r))"
proof (intro conjI allI impI)
  fix l'
  assume ok: "fst (parentApproveOrReject now u i b d) = Inr l'"
  from parentApproveOrReject_outcome [OF assms(1,2), of now b] ok
  have "l' = parentApproveOrReject_writes now u b l" by auto
  with assms(3) show "l' = l\<lparr>status := ''RejectedByParent'',
               parentApprovalStatus := ''Rejected'',
               parentApprovedBy := Some (user_id u),
               parentApprovedAt := Some now,
               parentRejectionReason := b_rejectionReason b,
               statusHistory := statusHistory l @
                 [\<lparr>h_status = ''RejectedByParent'', h_updatedBy = Some (user_id u),
                   h_role = ''parent'', h_reason = b_rejectionReason b, h_timestamp = now\<rparr>]\<rparr>"
    by (simp add: parentApproveOrReject_writes_def Let_def)
next
  fix l'
  assume ok: "fst (updateLeaveStatus now u i b d) = Inr l'"
  from updateLeaveStatus_outcome [OF assms(1,2), of now b] ok
  have l': "l' = applyUpdate (updateLeaveStatus_updateData now u b l) l" by auto
  with assms(3) show "l' = l\<lparr>status := ''Rejected'',
               approvedBy := Some (user_id u),
               rejectionReason := rejectionReason l',
               statusHistory := statusHistory l @
                 [\<lparr>h_status = ''Rejected'', h_updatedBy = Some (user_id u),
                   h_role = ''warden'', h_reason = b_rejectionReason b, h_timestamp = now\<rparr>]\<rparr>"
    by (simp add: applyUpdate_def updateLeaveStatus_updateData_def split: option.splits)
  fix r
  assume "b_rejectionReason b = Some r"
  with assms(3) l' show "rejectionReason l' = Some r"
    by (simp add: applyUpdate_def updateLeaveStatus_updateData_def)
qed

theorem C3_witness:
  "unique_ids ex_db \<and> unique_ids ex_db_parent_approved
   \<and> b_status ex_reject = ''Rejected''
   \<and> b_rejectionReason ex_reject = Some ''Exams''
   \<and> Leave_findOne 50 (user_institutionId ex_guardian) ex_db = Some ex_leave
   \<and> fst (parentApproveOrReject 1 ex_guardian 50 ex_reject ex_db) =
       Inr (ex_leave\<lparr>status := ''RejectedByParent'', parentApprovalStatus := ''Rejected'',
              parentApprovedBy := Some 2, parentApprovedAt := Some 1,
              parentRejectionReason := Some ''Exams'',
              statusHistory := statusHistory ex_leave @
                [\<lparr>h_status = ''RejectedByParent'', h_updatedBy = Some 2, h_role = ''parent'',
                  h_reason = Some ''Exams'', h_timestamp = 1\<rparr>]\<rparr>)
   \<and> Leave_findOne 50 (user_institutionId ex_warden) ex_db_parent_approved = Some ex_leave_parent_approved
   \<and> fst (updateLeaveStatus 2 ex_warden 50 ex_reject ex_db_parent_approved) =
       Inr (applyUpdate (updateLeaveStatus_updateData 2 ex_warden ex_reject ex_leave_parent_approved)
              ex_leave_parent_approved)
   \<and> rejectionReason
        (applyUpdate (updateLeaveStatus_updateData 2 ex_warden ex_reject ex_leave_parent_approved)
           ex_leave_parent_approved) = Some ''Exams''
   \<and> approvedAt
        (applyUpdate (updateLeaveStatus_updateData 2 ex_warden ex_reject ex_leave_parent_approved)
           ex_leave_parent_approved) = approvedAt ex_leave_parent_approved"
proof -
  have uniq: "unique_ids ex_db" "unique_ids ex_db_parent_approved"
    by (simp_all add: unique_ids_def ex_defs)
  have dec: "b_status ex_reject = ''Rejected''" "b_rejectionReason ex_reject = Some ''Exams''"
    by (simp_all add: ex_defs)
  have found: "Leave_findOne 50 (user_institutionId ex_guardian) ex_db = Some ex_leave"
    "Leave_findOne 50 (user_institutionId ex_warden) ex_db_parent_approved = Some ex_leave_parent_approved"
    by (simp_all add: Leave_findOne_def ex_defs)
  have ok: "fst (parentApproveOrReject 1 ex_guardian 50 ex_reject ex_db) =
       Inr (parentApproveOrReject_writes 1 ex_guardian ex_reject ex_leave)"
    "fst (updateLeaveStatus 2 ex_warden 50 ex_reject ex_db_parent_approved) =
       Inr (applyUpdate (updateLeaveStatus_updateData 2 ex_warden ex_reject ex_leave_parent_approved)
              ex_leave_parent_approved)"
    by (simp_all add: handler_defs query_defs ex_defs)
  note guardian = C3_rejection_writes [OF uniq(1) found(1) dec(1), of 1]
  note warden = C3_rejection_writes [OF uniq(2) found(2) dec(1), of 2]
  from guardian ok(1) have a: "parentApproveOrReject_writes 1 ex_guardian ex_reject ex_leave =
      ex_leave\<lparr>status := ''RejectedByParent'', parentApprovalStatus := ''Rejected'',
              parentApprovedBy := Some (user_id ex_guardian), parentApprovedAt := Some 1,
              parentRejectionReason := b_rejectionReason ex_reject,
              statusHistory := statusHistory ex_leave @
                [\<lparr>h_status = ''RejectedByParent'', h_updatedBy = Some (user_id ex_guardian),
                  h_role = ''parent'', h_reason = b_rejectionReason ex_reject, h_timestamp = 1\<rparr>]\<rparr>"
    by blast
  from warden ok(2) dec(2) have b: "rejectionReason
        (applyUpdate (updateLeaveStatus_updateData 2 ex_warden ex_reject ex_leave_parent_approved)
           ex_leave_parent_approved) = Some ''Exams''"
    by blast
  from warden ok(2) have "applyUpdate (updateLeaveStatus_updateData 2 ex_warden ex_reject ex_leave_parent_approved)
           ex_leave_parent_approved =
        ex_leave_parent_approved\<lparr>status := ''Rejected'',
               approvedBy := Some (user_id ex_warden),
               rejectionReason := rejectionReason
                  (applyUpdate (updateLeaveStatus_updateData 2 ex_warden ex_reject ex_leave_parent_approved)
                     ex_leave_parent_approved),
               statusHistory := statusHistory ex_leave_parent_approved @
                 [\<lparr>h_status = ''Rejected'', h_updatedBy = Some (user_id ex_warden),
                   h_role = ''warden'', h_reason = b_rejectionReason ex_reject, h_timestamp = 2\<rparr>]\<rparr>"
    by blast
  then have c: "approvedAt
        (applyUpdate (updateLeaveStatus_updateData 2 ex_warden ex_reject ex_leave_parent_approved)
           ex_leave_parent_approved) = approvedAt ex_leave_parent_approved"
    by (rule ssubst) simp
  from a ok(1) have a': "fst (parentApproveOrReject 1 ex_guardian 50 ex_reject ex_db) =
       Inr (ex_leave\<lparr>status := ''RejectedByParent'', parentApprovalStatus := ''Rejected'',
              parentApprovedBy := Some 2, parentApprovedAt := Some 1,
              parentRejectionReason := Some ''Exams'',
              statusHistory := statusHistory ex_leave @
                [\<lparr>h_status = ''RejectedByParent'', h_updatedBy = Some 2, h_role = ''parent'',
                  h_reason = Some ''Exams'', h_timestamp = 1\<rparr>]\<rparr>)"
    by (simp add: ex_guardian_def ex_reject_def)
  from uniq dec found a' ok(2) b c show ?thesis by (intro conjI)
qed

text \<open>
  A guardian rejection of leave 50 fills \<^verbatim>\<open>parentApprovedBy\<close> and \<^verbatim>\<open>parentApprovedAt\<close>,
  which were unset, and a warden rejection fills \<^verbatim>\<open>approvedBy\<close>.
\<close>

theorem C3_counterexample:
  "parentApprovedBy ex_leave = None
   \<and> parentApprovedAt ex_leave = None
   \<and> fst (parentApproveOrReject 1 ex_guardian 50 ex_reject ex_db) =
       Inr (ex_leave\<lparr>status := ''RejectedByParent'', parentApprovalStatus := ''Rejected'',
              parentApprovedBy := Some 2, parentApprovedAt := Some 1,
              parentRejectionReason := Some ''Exams'',
              statusHistory := statusHistory ex_leave @
                [\<lparr>h_status = ''RejectedByParent'', h_updatedBy = Some 2, h_role = ''parent'',
                  h_reason = Some ''Exams'', h_timestamp = 1\<rparr>]\<rparr>)
   \<and> approvedBy ex_leave_parent_approved = None
   \<and> fst (updateLeaveStatus 2 ex_warden 50 ex_reject ex_db_parent_approved) =
       Inr (ex_leave_parent_approved\<lparr>status := ''Rejected'', approvedBy := Some 3,
              rejectionReason := Some ''Exams'',
              statusHistory := statusHistory ex_leave_parent_approved @
                [\<lparr>h_status = ''Rejected'', h_updatedBy = Some 3, h_role = ''warden'',
                  h_reason = Some ''Exams'', h_timestamp = 2\<rparr>]\<rparr>)"
  by (simp add: handler_defs query_defs ex_defs)

section \<open>Who may cancel, and when\<close>

text \<open>
  Claim C4, as the handler has it. A cancellation succeeds only for a caller whose
  resident profile owns the leave, and only while the leave's status is \<^verbatim>\<open>PendingParent\<close>
  or the older \<^verbatim>\<open>Pending\<close>; a call that does not succeed returns the database as it was.
  A caller without a resident profile in the institution is answered 404
  (\<^verbatim>\<open>Student profile not found\<close>). For a caller with a profile and a loaded leave whose
  student document exists: a caller who does not own the leave is answered 403, the
  owner is answered 400 (invalid state) in every state other than the two, and in the
  two states the owner's cancellation is accepted. What a leave whose student document
  has been deleted is answered is left open here.
\<close>

theorem C4_cancel_owner_and_pending:
  "(\<forall>l'. fst (cancelMyLeaveRequest u i d) = Inr l' \<longrightarrow>
      (\<exists>s l. Student_findOne (user_id u) (user_institutionId u) d = Some s
            \<and> Leave_findOne i (user_institutionId u) d = Some l
            \<and> studentId l = s_id s
            \<and> status l \<in> {''Pending'', ''PendingParent''}))
   \<and> ((\<exists>e. cancelMyLeaveRequest u i d = (Inl e, d))
        \<or> (\<exists>l'. fst (cancelMyLeaveRequest u i d) = Inr l'))
   \<and> (Student_findOne (user_id u) (user_institutionId u) d = None \<longrightarrow>
        cancelMyLeaveRequest u i d = (Inl (404, ''Student profile not found''), d))
   \<and> (\<forall>s l. Student_findOne (user_id u) (user_institutionId u) d = Some s
            \<and> Leave_findOne i (user_institutionId u) d = Some l
            \<and> populate_studentId l d \<noteq> None \<longrightarrow>
        (studentId l \<noteq> s_id s \<longrightarrow>
           cancelMyLeaveRequest u i d =
             (Inl (403, ''Not authorized to cancel this leave request''), d))
        \<and> (studentId l = s_id s \<and> status l \<notin> {''Pending'', ''PendingParent''} \<longrightarrow>
             cancelMyLeaveRequest u i d =
               (Inl (400, ''Only pending requests (before parent/warden approval) can be cancelled''), d))
        \<and> (studentId l = s_id s \<and> status l \<in> {''Pending'', ''PendingParent''} \<longrightarrow>
             fst (cancelMyLeaveRequest u i d) = Inr (l\<lparr>status := ''Cancelled''\<rparr>)))"
proof (intro conjI allI impI)
  fix l'
  assume ok: "fst (cancelMyLeaveRequest u i d) = Inr l'"
  obtain r where r: "cancelMyLeaveRequest u i d = r" by simp
  then show "\<exists>s l. Student_findOne (user_id u) (user_institutionId u) d = Some s
            \<and> Leave_findOne i (user_institutionId u) d = Some l
            \<and> studentId l = s_id s
            \<and> status l \<in> {''Pending'', ''PendingParent''}"
  proof (cases rule: cancelMyLeaveRequest_cases)
    case (rejected e)
    with r ok show ?thesis by simp
  next
    case (accepted s l st)
    from accepted(3,4) have "studentId l = s_id s" by (auto dest: populate_studentId_id)
    with accepted(1,2,5) show ?thesis by blast
  qed
next
  show "(\<exists>e. cancelMyLeaveRequest u i d = (Inl e, d))
        \<or> (\<exists>l'. fst (cancelMyLeaveRequest u i d) = Inr l')"
  proof -
    obtain r where r: "cancelMyLeaveRequest u i d = r" by simp
    then show ?thesis
    proof (cases rule: cancelMyLeaveRequest_cases)
      case (rejected e)
      with r show ?thesis by simp
    next
      case (accepted s l st)
      with r show ?thesis by simp
    qed
  qed
next
  assume "Student_findOne (user_id u) (user_institutionId u) d = None"
  then show "cancelMyLeaveRequest u i d = (Inl (404, ''Student profile not found''), d)"
    by (simp add: cancelMyLeaveRequest_def)
next
  fix s l
  assume h: "Student_findOne (user_id u) (user_institutionId u) d = Some s
            \<and> Leave_findOne i (user_institutionId u) d = Some l
            \<and> populate_studentId l d \<noteq> None"
  then obtain st where st: "populate_studentId l d = Some st" "s_id st = studentId l"
    by (auto dest: populate_studentId_id)
  { assume "studentId l \<noteq> s_id s"
    with h st show "cancelMyLeaveRequest u i d =
             (Inl (403, ''Not authorized to cancel this leave request''), d)"
      by (simp add: cancelMyLeaveRequest_def) }
  { assume "studentId l = s_id s \<and> status l \<notin> {''Pending'', ''PendingParent''}"
    with h st show "cancelMyLeaveRequest u i d =
               (Inl (400, ''Only pending requests (before parent/warden approval) can be cancelled''), d)"
      by (simp add: cancelMyLeaveRequest_def) }
  { assume "studentId l = s_id s \<and> status l \<in> {''Pending'', ''PendingParent''}"
    with h st show "fst (cancelMyLeaveRequest u i d) = Inr (l\<lparr>status := ''Cancelled''\<rparr>)"
      by (auto simp: cancelMyLeaveRequest_def) }
qed

theorem C4_witness:
  "Student_findOne (user_id ex_resident) (user_institutionId ex_resident) ex_db =
     Some \<lparr>s_id = 10, s_userId = 1, s_institutionId = 100\<rparr>
   \<and> Leave_findOne 50 (user_institutionId ex_resident) ex_db = Some ex_leave
   \<and> populate_studentId ex_leave ex_db \<noteq> None
   \<and> studentId ex_leave = 10
   \<and> status ex_leave \<in> {''Pending'', ''PendingParent''}
   \<and> fst (cancelMyLeaveRequest ex_resident 50 ex_db) = Inr (ex_leave\<lparr>status := ''Cancelled''\<rparr>)
   \<and> Student_findOne (user_id ex_other_resident) (user_institutionId ex_other_resident) ex_db =
     Some \<lparr>s_id = 11, s_userId = 5, s_institutionId = 100\<rparr>
   \<and> Leave_findOne 50 (user_institutionId ex_other_resident) ex_db = Some ex_leave
   \<and> studentId ex_leave \<noteq> 11
   \<and> cancelMyLeaveRequest ex_other_resident 50 ex_db =
       (Inl (403, ''Not authorized to cancel this leave request''), ex_db)
   \<and> Leave_findOne 50 (user_institutionId ex_resident) ex_db_parent_approved = Some ex_leave_parent_approved
   \<and> populate_studentId ex_leave_parent_approved ex_db_parent_approved \<noteq> None
   \<and> studentId ex_leave_parent_approved = 10
   \<and> status ex_leave_parent_approved \<notin> {''Pending'', ''PendingParent''}
   \<and> cancelMyLeaveRequest ex_resident 50 ex_db_parent_approved =
       (Inl (400, ''Only pending requests (before parent/warden approval) can be cancelled''),
        ex_db_parent_approved)
   \<and> Student_findOne (user_id ex_warden) (user_institutionId ex_warden) ex_db = None
   \<and> cancelMyLeaveRequest ex_warden 50 ex_db = (Inl (404, ''Student profile not found''), ex_db)"
proof -
  have profiles:
    "Student_findOne (user_id ex_resident) (user_institutionId ex_resident) ex_db =
       Some \<lparr>s_id = 10, s_userId = 1, s_institutionId = 100\<rparr>"
    "Student_findOne (user_id ex_other_resident) (user_institutionId ex_other_resident) ex_db =
       Some \<lparr>s_id = 11, s_userId = 5, s_institutionId = 100\<rparr>"
    "Student_findOne (user_id ex_resident) (user_institutionId ex_resident) ex_db_parent_approved =
       Some \<lparr>s_id = 10, s_userId = 1, s_institutionId = 100\<rparr>"
    "Student_findOne (user_id ex_warden) (user_institutionId ex_warden) ex_db = None"
    by (simp_all add: Student_findOne_def ex_defs)
  have found: "Leave_findOne 50 (user_institutionId ex_resident) ex_db = Some ex_leave"
    "Leave_findOne 50 (user_institutionId ex_other_resident) ex_db = Some ex_leave"
    "Leave_findOne 50 (user_institutionId ex_resident) ex_db_parent_approved = Some ex_leave_parent_approved"
    by (simp_all add: Leave_findOne_def ex_defs)
  have pop: "populate_studentId ex_leave ex_db \<noteq> None"
    "populate_studentId ex_leave_parent_approved ex_db_parent_approved \<noteq> None"
    by (simp_all add: populate_studentId_def ex_defs)
  have facts: "studentId ex_leave = 10" "studentId ex_leave \<noteq> 11"
    "status ex_leave \<in> {''Pending'', ''PendingParent''}"
    "studentId ex_leave_parent_approved = 10"
    "status ex_leave_parent_approved \<notin> {''Pending'', ''PendingParent''}"
    by (simp_all add: ex_defs)
  note owner = C4_cancel_owner_and_pending [of ex_resident 50 ex_db]
  note other = C4_cancel_owner_and_pending [of ex_other_resident 50 ex_db]
  note late = C4_cancel_owner_and_pending [of ex_resident 50 ex_db_parent_approved]
  note none = C4_cancel_owner_and_pending [of ex_warden 50 ex_db]
  from owner profiles(1) found(1) pop(1) facts(1,3)
  have a: "fst (cancelMyLeaveRequest ex_resident 50 ex_db) = Inr (ex_leave\<lparr>status := ''Cancelled''\<rparr>)"
    by auto
  from other profiles(2) found(2) pop(1) facts(2)
  have b: "cancelMyLeaveRequest ex_other_resident 50 ex_db =
       (Inl (403, ''Not authorized to cancel this leave request''), ex_db)"
    by auto
  from late profiles(3) found(3) pop(2) facts(4,5)
  have c: "cancelMyLeaveRequest ex_resident 50 ex_db_parent_approved =
       (Inl (400, ''Only pending requests (before parent/warden approval) can be cancelled''),
        ex_db_parent_approved)"
    by auto
  from none profiles(4)
  have e: "cancelMyLeaveRequest ex_warden 50 ex_db = (Inl (404, ''Student profile not found''), ex_db)"
    by blast
  from profiles(1,2,4) found pop facts a b c e show ?thesis by (intro conjI)
qed

text \<open>
  The owner's cancellation of a leave in the state \<^verbatim>\<open>Pending\<close> is accepted, and a caller
  who is not the owner and has no resident profile is answered 404, not 403.
\<close>

theorem C4_counterexample:
  "status (ex_leave\<lparr>status := ''Pending''\<rparr>) \<noteq> ''PendingParent''
   \<and> leaves ex_db_legacy = [ex_leave\<lparr>status := ''Pending''\<rparr>]
   \<and> fst (cancelMyLeaveRequest ex_resident 50 ex_db_legacy) = Inr (ex_leave\<lparr>status := ''Cancelled''\<rparr>)
   \<and> leaves (snd (cancelMyLeaveRequest ex_resident 50 ex_db_legacy)) = [ex_leave\<lparr>status := ''Cancelled''\<rparr>]
   \<and> studentId ex_leave \<noteq> 20
   \<and> cancelMyLeaveRequest ex_guardian 50 ex_db = (Inl (404, ''Student profile not found''), ex_db)"
  by (simp add: handler_defs query_defs ex_defs)

section \<open>Validation at creation\<close>

text \<open>
  What \<^verbatim>\<open>createLeaveRequest\<close> answers 400 to: a reason that is absent or empty as it
  arrives, a type that is absent or empty, an absent date, or two valid dates of which
  the out date is not before the in date. A call answered 400 leaves the database as it
  was. This holds whatever the schema accepts and whatever id the store assigns.
\<close>

lemma createLeaveRequest_answers_400_iff:
  "((\<exists>m. fst (createLeaveRequest schemaAccepts newId now u b d) = Inl (400, m)) \<longleftrightarrow>
      (falsy (b_reason b) \<or> falsy (b_type b) \<or> b_outDate b = None \<or> b_inDate b = None
       \<or> (\<exists>x y. b_outDate b = Some (Instant x) \<and> b_inDate b = Some (Instant y) \<and> y \<le> x)))
   \<and> ((\<exists>m. fst (createLeaveRequest schemaAccepts newId now u b d) = Inl (400, m)) \<longrightarrow>
        snd (createLeaveRequest schemaAccepts newId now u b d) = d)"
proof -
  have ge: "\<And>a c. date_ge a c \<longleftrightarrow> (\<exists>x y. a = Instant x \<and> c = Instant y \<and> y \<le> x)"
  proof -
    fix a c show "date_ge a c \<longleftrightarrow> (\<exists>x y. a = Instant x \<and> c = Instant y \<and> y \<le> x)"
      by (cases a; cases c) simp_all
  qed
  show ?thesis
    by (cases "b_reason b"; cases "b_type b"; cases "b_outDate b"; cases "b_inDate b")
       (auto simp: createLeaveRequest_def Let_def falsy_def ge split: option.splits)
qed

text \<open>
  Claim C5 asks that a creation whose reason is empty after trimming fails with a
  validation error. The handler tests the reason before it trims it. A reason of two
  spaces is empty after trimming and is never answered 400, whatever the schema
  accepts: with a schema that accepts any document the leave is stored with an empty
  reason, with a schema that requires a reason the answer is 500. An out date that does
  not parse passes the validation in the same way.
\<close>

theorem C5_blank_reason_passes_validation:
  "b_reason ex_create_blank = Some [0x20, 0x20]
   \<and> trim [0x20, 0x20] = []
   \<and> \<not> (\<exists>m. fst (createLeaveRequest schemaAccepts 51 5 ex_resident ex_create_blank ex_db)
              = Inl (400, m))
   \<and> fst (createLeaveRequest schema_any 51 5 ex_resident ex_create_blank ex_db)
       = Inr (ex_leave\<lparr>leave_id := 51, reason := [],
                statusHistory := [\<lparr>h_status = ''PendingParent'', h_updatedBy = None,
                  h_role = ''student'', h_reason = None, h_timestamp = 5\<rparr>],
                createdAt := 5\<rparr>)
   \<and> length (leaves (snd (createLeaveRequest schema_any 51 5 ex_resident ex_create_blank ex_db))) = 2
   \<and> createLeaveRequest schema_reason_required 51 5 ex_resident ex_create_blank ex_db
       = (Inl (500, ''Server error while creating leave request''), ex_db)
   \<and> \<not> (\<exists>m. fst (createLeaveRequest schemaAccepts 51 5 ex_resident
                     (ex_create\<lparr>b_outDate := Some InvalidDate\<rparr>) ex_db)
              = Inl (400, m))"
proof -
  have blank: "\<not> (\<exists>m. fst (createLeaveRequest schemaAccepts 51 5 ex_resident ex_create_blank ex_db)
              = Inl (400, m))"
    by (simp add: createLeaveRequest_answers_400_iff falsy_def ex_create_blank_def ex_create_def)
  have unparsed: "\<not> (\<exists>m. fst (createLeaveRequest schemaAccepts 51 5 ex_resident
                     (ex_create\<lparr>b_outDate := Some InvalidDate\<rparr>) ex_db)
              = Inl (400, m))"
    by (simp add: createLeaveRequest_answers_400_iff falsy_def ex_create_def ascii_def)
  have rest: "b_reason ex_create_blank = Some [0x20, 0x20]"
    "trim [0x20, 0x20] = []"
    "fst (createLeaveRequest schema_any 51 5 ex_resident ex_create_blank ex_db)
       = Inr (ex_leave\<lparr>leave_id := 51, reason := [],
                statusHistory := [\<lparr>h_status = ''PendingParent'', h_updatedBy = None,
                  h_role = ''student'', h_reason = None, h_timestamp = 5\<rparr>],
                createdAt := 5\<rparr>)"
    "length (leaves (snd (createLeaveRequest schema_any 51 5 ex_resident ex_create_blank ex_db))) = 2"
    "createLeaveRequest schema_reason_required 51 5 ex_resident ex_create_blank ex_db
       = (Inl (500, ''Server error while creating leave request''), ex_db)"
    by (simp_all add: handler_defs query_defs ex_defs trim_def isSpace_def)
  from rest blank unparsed show ?thesis by (intro conjI)
qed

text \<open>The same two requests under the schema that requires a reason: neither is answered 400.\<close>

theorem C5_witness:
  "\<not> (\<exists>m. fst (createLeaveRequest schema_reason_required 51 5 ex_resident ex_create_blank ex_db)
            = Inl (400, m))
   \<and> \<not> (\<exists>m. fst (createLeaveRequest schema_reason_required 51 5 ex_resident
                     (ex_create\<lparr>b_outDate := Some InvalidDate\<rparr>) ex_db)
              = Inl (400, m))"
  using C5_blank_reason_passes_validation [of schema_reason_required] by blast

section \<open>Only the linked guardian decides\<close>

text \<open>
  What holds of a guardian decision with a decision value of \<^verbatim>\<open>Approved\<close> or
  \<^verbatim>\<open>Rejected\<close>: a caller without a guardian profile in the institution is answered 403
  (\<^verbatim>\<open>Parent profile not found\<close>); a guardian whose \<^verbatim>\<open>studentId\<close> differs from that of the
  loaded leave is refused with the database unchanged, and the answer is 403 when the
  leave's student document exists; and a decision is only ever recorded for a caller
  whose guardian profile is linked to the leave's student.
\<close>

lemma parentApproveOrReject_authorisation:
  assumes "b_status b \<in> {''Approved'', ''Rejected''}"
  shows "(Parent_findOne (user_id u) (user_institutionId u) d = None \<longrightarrow>
            parentApproveOrReject now u i b d = (Inl (403, ''Parent profile not found''), d))
       \<and> (\<forall>p l. Parent_findOne (user_id u) (user_institutionId u) d = Some p
               \<and> Leave_findOne i (user_institutionId u) d = Some l
               \<and> studentId l \<noteq> p_studentId p \<longrightarrow>
             (\<exists>e. parentApproveOrReject now u i b d = (Inl e, d))
             \<and> (populate_studentId l d \<noteq> None \<longrightarrow>
                  parentApproveOrReject now u i b d =
                    (Inl (403, ''Not authorized to approve this leave request''), d)))
       \<and> (\<forall>l'. fst (parentApproveOrReject now u i b d) = Inr l' \<longrightarrow>
             (\<exists>p l. Parent_findOne (user_id u) (user_institutionId u) d = Some p
                  \<and> Leave_findOne i (user_institutionId u) d = Some l
                  \<and> studentId l = p_studentId p))"
proof (intro conjI allI impI)
  assume "Parent_findOne (user_id u) (user_institutionId u) d = None"
  with assms show "parentApproveOrReject now u i b d = (Inl (403, ''Parent profile not found''), d)"
    by (auto simp: parentApproveOrReject_def)
next
  fix p l
  assume h: "Parent_findOne (user_id u) (user_institutionId u) d = Some p
               \<and> Leave_findOne i (user_institutionId u) d = Some l
               \<and> studentId l \<noteq> p_studentId p"
  with assms show "\<exists>e. parentApproveOrReject now u i b d = (Inl e, d)"
    by (auto simp: parentApproveOrReject_def dest: populate_studentId_id split: option.splits)
  assume "populate_studentId l d \<noteq> None"
  with assms h show "parentApproveOrReject now u i b d =
      (Inl (403, ''Not authorized to approve this leave request''), d)"
    by (auto simp: parentApproveOrReject_def dest: populate_studentId_id split: option.splits)
next
  fix l'
  assume "fst (parentApproveOrReject now u i b d) = Inr l'"
  then show "\<exists>p l. Parent_findOne (user_id u) (user_institutionId u) d = Some p
                  \<and> Leave_findOne i (user_institutionId u) d = Some l
                  \<and> studentId l = p_studentId p"
    by (cases rule: parentApproveOrReject_cases [OF refl, of now u i b d])
       (auto dest: populate_studentId_id)
qed

text \<open>
  Claim C6 asks that a guardian who is not linked to the leave's resident is answered
  Forbidden. When the student document of the leave has been deleted, the populated
  \<^verbatim>\<open>leave.studentId\<close> is \<^verbatim>\<open>null\<close>, the comparison \<^verbatim>\<open>leave.studentId._id\<close> throws and the
  answer is 500: the second guardian, linked to student 11, deciding on leave 50 of
  the deleted student 10. The leave is unchanged. With the student document in place
  the same call is answered 403.
\<close>

theorem C6_orphaned_leave_answers_500:
  "Parent_findOne (user_id ex_other_guardian) (user_institutionId ex_other_guardian) ex_db_orphan
     = Some \<lparr>p_id = 21, p_userId = 6, p_institutionId = 100, p_studentId = 11\<rparr>
   \<and> Leave_findOne 50 (user_institutionId ex_other_guardian) ex_db_orphan = Some ex_leave
   \<and> studentId ex_leave \<noteq> 11
   \<and> populate_studentId ex_leave ex_db_orphan = None
   \<and> parentApproveOrReject 1 ex_other_guardian 50 ex_reject ex_db_orphan
       = (Inl (500, ''Server error while updating leave request''), ex_db_orphan)
   \<and> parentApproveOrReject 1 ex_other_guardian 50 ex_reject ex_db
       = (Inl (403, ''Not authorized to approve this leave request''), ex_db)"
  by (simp add: handler_defs query_defs ex_defs)

section \<open>The warden decision needs the guardian's approval\<close>

text \<open>
  Claim C7. A warden decision on a leave that the caller's institution holds and whose
  status is not \<^verbatim>\<open>ApprovedByParent\<close> is answered with status 400 and the database is
  returned as it was. With a decision value of \<^verbatim>\<open>Approved\<close> or \<^verbatim>\<open>Rejected\<close> the answer is
  the invalid-state response \<^verbatim>\<open>Only parent-approved requests can be approved/rejected by
  warden\<close>; in particular an approval while the leave is still \<^verbatim>\<open>PendingParent\<close> fails.
\<close>

theorem C7_warden_needs_parent_approval:
  assumes "Leave_findOne i (user_institutionId u) d = Some l"
    and "status l \<noteq> ''ApprovedByParent''"
  shows "(\<exists>m. updateLeaveStatus now u i b d = (Inl (400, m), d))
       \<and> (b_status b \<in> {''Approved'', ''Rejected''} \<longrightarrow>
            updateLeaveStatus now u i b d =
              (Inl (400, ''Only parent-approved requests can be approved/rejected by warden''), d))"
  using assms by (simp add: updateLeaveStatus_def updateLeaveStatus_read_def)

theorem C7_witness:
  "Leave_findOne 50 (user_institutionId ex_warden) ex_db = Some ex_leave
   \<and> status ex_leave \<noteq> ''ApprovedByParent''
   \<and> b_status ex_approve \<in> {''Approved'', ''Rejected''}
   \<and> updateLeaveStatus 2 ex_warden 50 ex_approve ex_db =
       (Inl (400, ''Only parent-approved requests can be approved/rejected by warden''), ex_db)"
proof -
  have found: "Leave_findOne 50 (user_institutionId ex_warden) ex_db = Some ex_leave"
    by (simp add: Leave_findOne_def ex_defs)
  have state: "status ex_leave \<noteq> ''ApprovedByParent''"
    by (simp add: ex_leave_def)
  have dec: "b_status ex_approve \<in> {''Approved'', ''Rejected''}"
    by (simp add: ex_approve_def)
  from C7_warden_needs_parent_approval [OF found state, of 2 ex_approve] dec found state
  show ?thesis by blast
qed

section \<open>Isolation of institutions\<close>

text \<open>
  Claim C8. With unique leave ids: the listing returns only leaves of the caller's
  institution; a guardian decision, a warden decision and a cancellation aimed at the
  id of a leave of another institution are all rejected with the database unchanged,
  and the answer is 404 (\<^verbatim>\<open>Leave request not found\<close>) as soon as the call gets as far as
  loading the leave (the decision value is valid, the guardian or student profile of
  the caller exists; the cancellation answers 404 in either case); and whatever the
  three handlers are called with, the leaves of every other institution are the same
  afterwards.
\<close>

theorem C8_tenant_isolation:
  assumes "unique_ids d"
  shows "(\<forall>l \<in> set (getAllLeaveRequests u q d).
            l \<in> set (leaves d) \<and> institutionId l = user_institutionId u)
       \<and> (\<forall>l \<in> set (leaves d). institutionId l \<noteq> user_institutionId u \<longrightarrow>
            (\<exists>e. parentApproveOrReject now u (leave_id l) b d = (Inl e, d))
            \<and> (b_status b \<in> {''Approved'', ''Rejected''}
                 \<and> Parent_findOne (user_id u) (user_institutionId u) d \<noteq> None \<longrightarrow>
                 parentApproveOrReject now u (leave_id l) b d =
                   (Inl (404, ''Leave request not found''), d))
            \<and> (\<exists>e. updateLeaveStatus now u (leave_id l) b d = (Inl e, d))
            \<and> (b_status b \<in> {''Approved'', ''Rejected''} \<longrightarrow>
                 updateLeaveStatus now u (leave_id l) b d =
                   (Inl (404, ''Leave request not found''), d))
            \<and> (\<exists>m. cancelMyLeaveRequest u (leave_id l) d = (Inl (404, m), d))
            \<and> (Student_findOne (user_id u) (user_institutionId u) d \<noteq> None \<longrightarrow>
                 cancelMyLeaveRequest u (leave_id l) d =
                   (Inl (404, ''Leave request not found''), d)))
       \<and> filter (\<lambda>x. institutionId x \<noteq> user_institutionId u)
            (leaves (snd (parentApproveOrReject now u i b d)))
          = filter (\<lambda>x. institutionId x \<noteq> user_institutionId u) (leaves d)
       \<and> filter (\<lambda>x. institutionId x \<noteq> user_institutionId u)
            (leaves (snd (updateLeaveStatus now u i b d)))
          = filter (\<lambda>x. institutionId x \<noteq> user_institutionId u) (leaves d)
       \<and> filter (\<lambda>x. institutionId x \<noteq> user_institutionId u)
            (leaves (snd (cancelMyLeaveRequest u i d)))
          = filter (\<lambda>x. institutionId x \<noteq> user_institutionId u) (leaves d)"
proof -
  have listing: "\<forall>l \<in> set (getAllLeaveRequests u q d).
            l \<in> set (leaves d) \<and> institutionId l = user_institutionId u"
    by (auto simp: getAllLeaveRequests_def)
  have loads: "\<forall>l \<in> set (leaves d). institutionId l \<noteq> user_institutionId u \<longrightarrow>
            (\<exists>e. parentApproveOrReject now u (leave_id l) b d = (Inl e, d))
            \<and> (b_status b \<in> {''Approved'', ''Rejected''}
                 \<and> Parent_findOne (user_id u) (user_institutionId u) d \<noteq> None \<longrightarrow>
                 parentApproveOrReject now u (leave_id l) b d =
                   (Inl (404, ''Leave request not found''), d))
            \<and> (\<exists>e. updateLeaveStatus now u (leave_id l) b d = (Inl e, d))
            \<and> (b_status b \<in> {''Approved'', ''Rejected''} \<longrightarrow>
                 updateLeaveStatus now u (leave_id l) b d =
                   (Inl (404, ''Leave request not found''), d))
            \<and> (\<exists>m. cancelMyLeaveRequest u (leave_id l) d = (Inl (404, m), d))
            \<and> (Student_findOne (user_id u) (user_institutionId u) d \<noteq> None \<longrightarrow>
                 cancelMyLeaveRequest u (leave_id l) d =
                   (Inl (404, ''Leave request not found''), d))"
  proof (intro ballI impI)
    fix l assume "l \<in> set (leaves d)" "institutionId l \<noteq> user_institutionId u"
    with assms have nf: "Leave_findOne (leave_id l) (user_institutionId u) d = None"
      by (rule foreign_leave_not_found)
    show "(\<exists>e. parentApproveOrReject now u (leave_id l) b d = (Inl e, d))
            \<and> (b_status b \<in> {''Approved'', ''Rejected''}
                 \<and> Parent_findOne (user_id u) (user_institutionId u) d \<noteq> None \<longrightarrow>
                 parentApproveOrReject now u (leave_id l) b d =
                   (Inl (404, ''Leave request not found''), d))
            \<and> (\<exists>e. updateLeaveStatus now u (leave_id l) b d = (Inl e, d))
            \<and> (b_status b \<in> {''Approved'', ''Rejected''} \<longrightarrow>
                 updateLeaveStatus now u (leave_id l) b d =
                   (Inl (404, ''Leave request not found''), d))
            \<and> (\<exists>m. cancelMyLeaveRequest u (leave_id l) d = (Inl (404, m), d))
            \<and> (Student_findOne (user_id u) (user_institutionId u) d \<noteq> None \<longrightarrow>
                 cancelMyLeaveRequest u (leave_id l) d =
                   (Inl (404, ''Leave request not found''), d))"
      using nf
      by (auto simp: parentApproveOrReject_def updateLeaveStatus_def updateLeaveStatus_read_def
            cancelMyLeaveRequest_def split: option.splits)
  qed
  from listing loads parent_frame [OF assms] warden_frame cancel_frame [OF assms]
  show ?thesis by blast
qed

theorem C8_witness:
  "unique_ids ex_db
   \<and> ex_leave \<in> set (leaves ex_db)
   \<and> institutionId ex_leave \<noteq> user_institutionId ex_outsider
   \<and> b_status ex_approve \<in> {''Approved'', ''Rejected''}
   \<and> getAllLeaveRequests ex_outsider None ex_db = []
   \<and> getAllLeaveRequests ex_warden None ex_db = [ex_leave]
   \<and> updateLeaveStatus 2 ex_outsider (leave_id ex_leave) ex_approve ex_db =
        (Inl (404, ''Leave request not found''), ex_db)
   \<and> parentApproveOrReject 2 ex_outsider (leave_id ex_leave) ex_approve ex_db =
        (Inl (403, ''Parent profile not found''), ex_db)
   \<and> cancelMyLeaveRequest ex_outsider (leave_id ex_leave) ex_db =
        (Inl (404, ''Student profile not found''), ex_db)
   \<and> filter (\<lambda>x. institutionId x \<noteq> user_institutionId ex_outsider)
        (leaves (snd (updateLeaveStatus 2 ex_outsider 50 ex_approve ex_db))) = [ex_leave]"
proof -
  have uniq: "unique_ids ex_db"
    by (simp add: unique_ids_def ex_defs)
  have mem: "ex_leave \<in> set (leaves ex_db)"
    and foreign: "institutionId ex_leave \<noteq> user_institutionId ex_outsider"
    and dec: "b_status ex_approve \<in> {''Approved'', ''Rejected''}"
    by (simp_all add: ex_defs)
  have lists: "getAllLeaveRequests ex_outsider None ex_db = []"
      "getAllLeaveRequests ex_warden None ex_db = [ex_leave]"
    by (simp_all add: getAllLeaveRequests_def falsy_def ex_defs)
  have others: "parentApproveOrReject 2 ex_outsider (leave_id ex_leave) ex_approve ex_db =
        (Inl (403, ''Parent profile not found''), ex_db)"
      "cancelMyLeaveRequest ex_outsider (leave_id ex_leave) ex_db =
        (Inl (404, ''Student profile not found''), ex_db)"
    by (simp_all add: parentApproveOrReject_def cancelMyLeaveRequest_def query_defs ex_defs)
  have before: "filter (\<lambda>x. institutionId x \<noteq> user_institutionId ex_outsider) (leaves ex_db) = [ex_leave]"
    by (simp add: ex_defs)
  note inst = C8_tenant_isolation [OF uniq, of ex_outsider None 2 ex_approve 50]
  from inst mem foreign dec have "updateLeaveStatus 2 ex_outsider (leave_id ex_leave) ex_approve ex_db =
        (Inl (404, ''Leave request not found''), ex_db)" by blast
  moreover from inst before have "filter (\<lambda>x. institutionId x \<noteq> user_institutionId ex_outsider)
        (leaves (snd (updateLeaveStatus 2 ex_outsider 50 ex_approve ex_db))) = [ex_leave]" by simp
  ultimately show ?thesis using uniq mem foreign dec lists others by simp
qed

section \<open>Check, then write\<close>

text \<open>
  Claim C9, as the handlers have it. The warden's write is not a conditional write
  keyed on the expected status: it is keyed on the id and the institution only, and on
  a store with unique ids it replaces the addressed leave by its update whatever the
  leave's status is. What keeps a second decision of the same kind from succeeding is
  the status check before the write, when the second call reads after the first has
  written: after an accepted guardian decision every further guardian decision on the
  leave from the same institution is rejected, after an accepted warden decision every
  further warden decision is answered 400, and after an accepted cancellation every
  further cancellation is rejected, each with the database left as the first call made
  it. Two warden decisions on a guardian-approved leave that both read the leave
  before either writes are both written, the later over the earlier: the stored status
  is the later decision's, the stored trail is the trail that was read with the later
  decision's entry alone, and both calls are answered with success when the student's
  name can be read.
\<close>

theorem C9_write_not_keyed_on_status:
  assumes "unique_ids d" and "Leave_findOne i (user_institutionId u) d = Some l"
    and "user_institutionId u' = user_institutionId u"
  shows
    "snd (updateLeaveStatus_write u i upd d) =
       d\<lparr>leaves := map (\<lambda>y. if leave_id y = i then applyUpdate upd l else y) (leaves d)\<rparr>
   \<and> (\<forall>l'. fst (parentApproveOrReject now u i b d) = Inr l' \<longrightarrow>
        (\<exists>e. parentApproveOrReject now' u' i b' (snd (parentApproveOrReject now u i b d)) =
               (Inl e, snd (parentApproveOrReject now u i b d))))
   \<and> (\<forall>l'. fst (updateLeaveStatus now u i b d) = Inr l' \<longrightarrow>
        (\<exists>m. updateLeaveStatus now' u' i b' (snd (updateLeaveStatus now u i b d)) =
               (Inl (400, m), snd (updateLeaveStatus now u i b d))))
   \<and> (\<forall>l'. fst (cancelMyLeaveRequest u i d) = Inr l' \<longrightarrow>
        (\<exists>e. cancelMyLeaveRequest u' i (snd (cancelMyLeaveRequest u i d)) =
               (Inl e, snd (cancelMyLeaveRequest u i d))))
   \<and> (status l = ''ApprovedByParent'' \<and> b_status b \<in> {''Approved'', ''Rejected''}
        \<and> b_status b' \<in> {''Approved'', ''Rejected''} \<longrightarrow>
        updateLeaveStatus_read now u i b d = Inr (updateLeaveStatus_updateData now u b l)
        \<and> updateLeaveStatus_read now' u' i b' d = Inr (updateLeaveStatus_updateData now' u' b' l)
        \<and> snd (updateLeaveStatus_write u' i (updateLeaveStatus_updateData now' u' b' l)
                 (snd (updateLeaveStatus_write u i (updateLeaveStatus_updateData now u b l) d))) =
            d\<lparr>leaves := map (\<lambda>y. if leave_id y = i
                                then applyUpdate (updateLeaveStatus_updateData now' u' b' l)
                                       (applyUpdate (updateLeaveStatus_updateData now u b l) l)
                                else y) (leaves d)\<rparr>
        \<and> status (applyUpdate (updateLeaveStatus_updateData now' u' b' l)
                     (applyUpdate (updateLeaveStatus_updateData now u b l) l)) = b_status b'
        \<and> statusHistory (applyUpdate (updateLeaveStatus_updateData now' u' b' l)
                            (applyUpdate (updateLeaveStatus_updateData now u b l) l)) =
            statusHistory l @
              [\<lparr>h_status = b_status b', h_updatedBy = Some (user_id u'), h_role = ''warden'',
                h_reason = (if b_status b' = ''Rejected'' then b_rejectionReason b' else None),
                h_timestamp = now'\<rparr>]
        \<and> (student_name_readable l d \<longrightarrow>
              fst (updateLeaveStatus_write u i (updateLeaveStatus_updateData now u b l) d) =
                Inr (applyUpdate (updateLeaveStatus_updateData now u b l) l)
              \<and> fst (updateLeaveStatus_write u' i (updateLeaveStatus_updateData now' u' b' l)
                       (snd (updateLeaveStatus_write u i (updateLeaveStatus_updateData now u b l) d))) =
                  Inr (applyUpdate (updateLeaveStatus_updateData now' u' b' l)
                         (applyUpdate (updateLeaveStatus_updateData now u b l) l))))"
proof -
  from assms(2) have l: "leave_id l = i" "institutionId l = user_institutionId u"
    by (auto dest: Leave_findOne_mem)
  have unconditional: "snd (updateLeaveStatus_write u i upd d) =
       d\<lparr>leaves := map (\<lambda>y. if leave_id y = i then applyUpdate upd l else y) (leaves d)\<rparr>"
    by (simp add: updateLeaveStatus_write_loaded [OF assms(1,2)])
  have guardians: "\<forall>l'. fst (parentApproveOrReject now u i b d) = Inr l' \<longrightarrow>
        (\<exists>e. parentApproveOrReject now' u' i b' (snd (parentApproveOrReject now u i b d)) =
               (Inl e, snd (parentApproveOrReject now u i b d)))"
  proof (intro allI impI)
    fix l'
    assume ok: "fst (parentApproveOrReject now u i b d) = Inr l'"
    from parentApproveOrReject_outcome [OF assms(1,2), of now b] ok
    have db: "snd (parentApproveOrReject now u i b d) =
        d\<lparr>leaves := map (\<lambda>y. if leave_id y = i then parentApproveOrReject_writes now u b l else y)
                     (leaves d)\<rparr>"
      by auto
    from l have "Leave_findOne i (user_institutionId u) (snd (parentApproveOrReject now u i b d))
        = Some (parentApproveOrReject_writes now u b l)"
      unfolding db by (intro Leave_findOne_replaced [OF assms(2)]) simp_all
    moreover have "status (parentApproveOrReject_writes now u b l) \<noteq> ''PendingParent''"
      by (simp add: status_parent_writes)
    ultimately show "\<exists>e. parentApproveOrReject now' u' i b' (snd (parentApproveOrReject now u i b d)) =
               (Inl e, snd (parentApproveOrReject now u i b d))"
      using assms(3) by (intro parentApproveOrReject_wrong_state) simp_all
  qed
  have wardens: "\<forall>l'. fst (updateLeaveStatus now u i b d) = Inr l' \<longrightarrow>
        (\<exists>m. updateLeaveStatus now' u' i b' (snd (updateLeaveStatus now u i b d)) =
               (Inl (400, m), snd (updateLeaveStatus now u i b d)))"
  proof (intro allI impI)
    fix l'
    assume ok: "fst (updateLeaveStatus now u i b d) = Inr l'"
    from updateLeaveStatus_outcome [OF assms(1,2), of now b] ok
    have dec: "b_status b \<in> {''Approved'', ''Rejected''}"
      and db: "snd (updateLeaveStatus now u i b d) =
        d\<lparr>leaves := map (\<lambda>y. if leave_id y = i
                            then applyUpdate (updateLeaveStatus_updateData now u b l) l else y)
                     (leaves d)\<rparr>"
      by auto
    from l have "Leave_findOne i (user_institutionId u) (snd (updateLeaveStatus now u i b d))
        = Some (applyUpdate (updateLeaveStatus_updateData now u b l) l)"
      unfolding db by (intro Leave_findOne_replaced [OF assms(2)]) simp_all
    moreover from dec have "status (applyUpdate (updateLeaveStatus_updateData now u b l) l)
        \<noteq> ''ApprovedByParent''"
      by (auto simp: status_applyUpdate updateLeaveStatus_updateData_def)
    ultimately show "\<exists>m. updateLeaveStatus now' u' i b' (snd (updateLeaveStatus now u i b d)) =
               (Inl (400, m), snd (updateLeaveStatus now u i b d))"
      using assms(3) by (intro updateLeaveStatus_wrong_state) simp_all
  qed
  have cancels: "\<forall>l'. fst (cancelMyLeaveRequest u i d) = Inr l' \<longrightarrow>
        (\<exists>e. cancelMyLeaveRequest u' i (snd (cancelMyLeaveRequest u i d)) =
               (Inl e, snd (cancelMyLeaveRequest u i d)))"
  proof (intro allI impI)
    fix l'
    assume ok: "fst (cancelMyLeaveRequest u i d) = Inr l'"
    from cancelMyLeaveRequest_outcome [OF assms(1,2)] ok
    have db: "snd (cancelMyLeaveRequest u i d) =
        d\<lparr>leaves := map (\<lambda>y. if leave_id y = i then l\<lparr>status := ''Cancelled''\<rparr> else y) (leaves d)\<rparr>"
      by auto
    from l have "Leave_findOne i (user_institutionId u) (snd (cancelMyLeaveRequest u i d))
        = Some (l\<lparr>status := ''Cancelled''\<rparr>)"
      unfolding db by (intro Leave_findOne_replaced [OF assms(2)]) simp_all
    moreover have "status (l\<lparr>status := ''Cancelled''\<rparr>) \<notin> {''Pending'', ''PendingParent''}"
      by simp
    ultimately show "\<exists>e. cancelMyLeaveRequest u' i (snd (cancelMyLeaveRequest u i d)) =
               (Inl e, snd (cancelMyLeaveRequest u i d))"
      using assms(3)
      by (intro cancelMyLeaveRequest_wrong_state [where x = "l\<lparr>status := ''Cancelled''\<rparr>"]) simp_all
  qed
  have race: "status l = ''ApprovedByParent'' \<and> b_status b \<in> {''Approved'', ''Rejected''}
        \<and> b_status b' \<in> {''Approved'', ''Rejected''} \<longrightarrow>
        updateLeaveStatus_read now u i b d = Inr (updateLeaveStatus_updateData now u b l)
        \<and> updateLeaveStatus_read now' u' i b' d = Inr (updateLeaveStatus_updateData now' u' b' l)
        \<and> snd (updateLeaveStatus_write u' i (updateLeaveStatus_updateData now' u' b' l)
                 (snd (updateLeaveStatus_write u i (updateLeaveStatus_updateData now u b l) d))) =
            d\<lparr>leaves := map (\<lambda>y. if leave_id y = i
                                then applyUpdate (updateLeaveStatus_updateData now' u' b' l)
                                       (applyUpdate (updateLeaveStatus_updateData now u b l) l)
                                else y) (leaves d)\<rparr>
        \<and> status (applyUpdate (updateLeaveStatus_updateData now' u' b' l)
                     (applyUpdate (updateLeaveStatus_updateData now u b l) l)) = b_status b'
        \<and> statusHistory (applyUpdate (updateLeaveStatus_updateData now' u' b' l)
                            (applyUpdate (updateLeaveStatus_updateData now u b l) l)) =
            statusHistory l @
              [\<lparr>h_status = b_status b', h_updatedBy = Some (user_id u'), h_role = ''warden'',
                h_reason = (if b_status b' = ''Rejected'' then b_rejectionReason b' else None),
                h_timestamp = now'\<rparr>]
        \<and> (student_name_readable l d \<longrightarrow>
              fst (updateLeaveStatus_write u i (updateLeaveStatus_updateData now u b l) d) =
                Inr (applyUpdate (updateLeaveStatus_updateData now u b l) l)
              \<and> fst (updateLeaveStatus_write u' i (updateLeaveStatus_updateData now' u' b' l)
                       (snd (updateLeaveStatus_write u i (updateLeaveStatus_updateData now u b l) d))) =
                  Inr (applyUpdate (updateLeaveStatus_updateData now' u' b' l)
                         (applyUpdate (updateLeaveStatus_updateData now u b l) l)))"
  proof (intro impI)
    assume h: "status l = ''ApprovedByParent'' \<and> b_status b \<in> {''Approved'', ''Rejected''}
        \<and> b_status b' \<in> {''Approved'', ''Rejected''}"
    define first where "first = updateLeaveStatus_updateData now u b l"
    define second where "second = updateLeaveStatus_updateData now' u' b' l"
    define d1 where "d1 = d\<lparr>leaves := map (\<lambda>y. if leave_id y = i then applyUpdate first l else y)
                                       (leaves d)\<rparr>"
    have reads: "updateLeaveStatus_read now u i b d = Inr first"
      "updateLeaveStatus_read now' u' i b' d = Inr second"
      using h assms(2,3) by (auto simp: updateLeaveStatus_read_def first_def second_def)
    have w1: "updateLeaveStatus_write u i first d =
        (if student_name_readable l d then Inr (applyUpdate first l)
         else Inl (500, ''Server error while updating leave request''), d1)"
      by (simp add: updateLeaveStatus_write_loaded [OF assms(1,2)] d1_def)
    have uniq1: "unique_ids d1"
      unfolding d1_def using assms(1) l(1) by (intro unique_ids_replaced) simp_all
    have found1: "Leave_findOne i (user_institutionId u') d1 = Some (applyUpdate first l)"
      unfolding d1_def assms(3) using l by (intro Leave_findOne_replaced [OF assms(2)]) simp_all
    have w2: "updateLeaveStatus_write u' i second d1 =
        (if student_name_readable l d then Inr (applyUpdate second (applyUpdate first l))
         else Inl (500, ''Server error while updating leave request''),
         d\<lparr>leaves := map (\<lambda>y. if leave_id y = i then applyUpdate second (applyUpdate first l) else y)
                       (leaves d)\<rparr>)"
      unfolding updateLeaveStatus_write_loaded [OF uniq1 found1]
      using l(1) by (simp add: d1_def replaced_twice)
    have st: "status (applyUpdate second (applyUpdate first l)) = b_status b'"
      by (simp add: status_applyUpdate second_def updateLeaveStatus_updateData_def)
    have hist: "statusHistory (applyUpdate second (applyUpdate first l)) =
        statusHistory l @
          [\<lparr>h_status = b_status b', h_updatedBy = Some (user_id u'), h_role = ''warden'',
            h_reason = (if b_status b' = ''Rejected'' then b_rejectionReason b' else None),
            h_timestamp = now'\<rparr>]"
      by (simp add: applyUpdate_def second_def updateLeaveStatus_updateData_def)
    from reads w1 w2 st hist
    show "updateLeaveStatus_read now u i b d = Inr (updateLeaveStatus_updateData now u b l)
        \<and> updateLeaveStatus_read now' u' i b' d = Inr (updateLeaveStatus_updateData now' u' b' l)
        \<and> snd (updateLeaveStatus_write u' i (updateLeaveStatus_updateData now' u' b' l)
                 (snd (updateLeaveStatus_write u i (updateLeaveStatus_updateData now u b l) d))) =
            d\<lparr>leaves := map (\<lambda>y. if leave_id y = i
                                then applyUpdate (updateLeaveStatus_updateData now' u' b' l)
                                       (applyUpdate (updateLeaveStatus_updateData now u b l) l)
                                else y) (leaves d)\<rparr>
        \<and> status (applyUpdate (updateLeaveStatus_updateData now' u' b' l)
                     (applyUpdate (updateLeaveStatus_updateData now u b l) l)) = b_status b'
        \<and> statusHistory (applyUpdate (updateLeaveStatus_updateData now' u' b' l)
                            (applyUpdate (updateLeaveStatus_updateData now u b l) l)) =
            statusHistory l @
              [\<lparr>h_status = b_status b', h_updatedBy = Some (user_id u'), h_role = ''warden'',
                h_reason = (if b_status b' = ''Rejected'' then b_rejectionReason b' else None),
                h_timestamp = now'\<rparr>]
        \<and> (student_name_readable l d \<longrightarrow>
              fst (updateLeaveStatus_write u i (updateLeaveStatus_updateData now u b l) d) =
                Inr (applyUpdate (updateLeaveStatus_updateData now u b l) l)
              \<and> fst (updateLeaveStatus_write u' i (updateLeaveStatus_updateData now' u' b' l)
                       (snd (updateLeaveStatus_write u i (updateLeaveStatus_updateData now u b l) d))) =
                  Inr (applyUpdate (updateLeaveStatus_updateData now' u' b' l)
                         (applyUpdate (updateLeaveStatus_updateData now u b l) l)))"
      unfolding first_def [symmetric] second_def [symmetric] by simp
  qed
  from unconditional guardians wardens cancels race show ?thesis by (intro conjI)
qed

text \<open>
  On the small institution: the warden's write goes through on leave 50 while it is
  still \<^verbatim>\<open>PendingParent\<close>; a rejection after an accepted approval is answered 400; an
  approval and a rejection that both read the guardian-approved leave first are both
  answered with success and the leave ends \<^verbatim>\<open>Rejected\<close>; a second cancellation changes
  nothing.
\<close>

theorem C9_witness:
  "unique_ids ex_db
   \<and> Leave_findOne 50 (user_institutionId ex_warden) ex_db = Some ex_leave
   \<and> status ex_leave = ''PendingParent''
   \<and> map status (leaves (snd (updateLeaveStatus_write ex_warden 50 ex_race_approve ex_db))) = [''Approved'']
   \<and> unique_ids ex_db_parent_approved
   \<and> Leave_findOne 50 (user_institutionId ex_warden) ex_db_parent_approved = Some ex_leave_parent_approved
   \<and> fst (updateLeaveStatus 2 ex_warden 50 ex_approve ex_db_parent_approved)
       = Inr (applyUpdate ex_race_approve ex_leave_parent_approved)
   \<and> fst (updateLeaveStatus 3 ex_warden 50 ex_reject
            (snd (updateLeaveStatus 2 ex_warden 50 ex_approve ex_db_parent_approved)))
       = Inl (400, ''Only parent-approved requests can be approved/rejected by warden'')
   \<and> snd (updateLeaveStatus 3 ex_warden 50 ex_reject
            (snd (updateLeaveStatus 2 ex_warden 50 ex_approve ex_db_parent_approved)))
       = snd (updateLeaveStatus 2 ex_warden 50 ex_approve ex_db_parent_approved)
   \<and> status ex_leave_parent_approved = ''ApprovedByParent''
   \<and> b_status ex_approve \<in> {''Approved'', ''Rejected''}
   \<and> b_status ex_reject \<in> {''Approved'', ''Rejected''}
   \<and> student_name_readable ex_leave_parent_approved ex_db_parent_approved
   \<and> fst (updateLeaveStatus_write ex_warden 50 ex_race_approve ex_db_parent_approved)
       = Inr (applyUpdate ex_race_approve ex_leave_parent_approved)
   \<and> fst (updateLeaveStatus_write ex_warden 50 ex_race_reject
            (snd (updateLeaveStatus_write ex_warden 50 ex_race_approve ex_db_parent_approved)))
       = Inr (applyUpdate ex_race_reject (applyUpdate ex_race_approve ex_leave_parent_approved))
   \<and> status (applyUpdate ex_race_reject (applyUpdate ex_race_approve ex_leave_parent_approved))
       = ''Rejected''
   \<and> Leave_findOne 50 (user_institutionId ex_resident) ex_db = Some ex_leave
   \<and> fst (cancelMyLeaveRequest ex_resident 50 ex_db) = Inr (ex_leave\<lparr>status := ''Cancelled''\<rparr>)
   \<and> snd (cancelMyLeaveRequest ex_resident 50 (snd (cancelMyLeaveRequest ex_resident 50 ex_db)))
       = snd (cancelMyLeaveRequest ex_resident 50 ex_db)"
proof -
  have uniq: "unique_ids ex_db" "unique_ids ex_db_parent_approved"
    by (simp_all add: unique_ids_def ex_defs)
  have found: "Leave_findOne 50 (user_institutionId ex_warden) ex_db = Some ex_leave"
    "Leave_findOne 50 (user_institutionId ex_warden) ex_db_parent_approved = Some ex_leave_parent_approved"
    "Leave_findOne 50 (user_institutionId ex_resident) ex_db = Some ex_leave"
    by (simp_all add: Leave_findOne_def ex_defs)
  have state: "status ex_leave = ''PendingParent''"
    "status ex_leave_parent_approved = ''ApprovedByParent''"
    "b_status ex_approve \<in> {''Approved'', ''Rejected''}"
    "b_status ex_reject \<in> {''Approved'', ''Rejected''}"
    by (simp_all add: ex_defs)
  have readable: "student_name_readable ex_leave_parent_approved ex_db_parent_approved"
    by (simp add: query_defs ex_defs)
  have first: "fst (updateLeaveStatus 2 ex_warden 50 ex_approve ex_db_parent_approved)
       = Inr (applyUpdate ex_race_approve ex_leave_parent_approved)"
    by (simp add: handler_defs query_defs ex_defs)
  have cancelled: "fst (cancelMyLeaveRequest ex_resident 50 ex_db) = Inr (ex_leave\<lparr>status := ''Cancelled''\<rparr>)"
    by (simp add: handler_defs query_defs ex_defs)
  note early = C9_write_not_keyed_on_status [OF uniq(1) found(1) refl, where upd = ex_race_approve]
  note late = C9_write_not_keyed_on_status
    [OF uniq(2) found(2) refl, where now = 2 and b = ex_approve and now' = 3 and b' = ex_reject]
  note again = C9_write_not_keyed_on_status [OF uniq(1) found(3) refl]
  from early have "leaves (snd (updateLeaveStatus_write ex_warden 50 ex_race_approve ex_db)) =
      map (\<lambda>y. if leave_id y = 50 then applyUpdate ex_race_approve ex_leave else y) (leaves ex_db)"
    by simp
  then have a: "map status (leaves (snd (updateLeaveStatus_write ex_warden 50 ex_race_approve ex_db)))
      = [''Approved'']"
    by (simp add: ex_defs applyUpdate_def updateLeaveStatus_updateData_def)
  from late first obtain m where "updateLeaveStatus 3 ex_warden 50 ex_reject
            (snd (updateLeaveStatus 2 ex_warden 50 ex_approve ex_db_parent_approved)) =
       (Inl (400, m), snd (updateLeaveStatus 2 ex_warden 50 ex_approve ex_db_parent_approved))"
    by blast
  then have same: "snd (updateLeaveStatus 3 ex_warden 50 ex_reject
            (snd (updateLeaveStatus 2 ex_warden 50 ex_approve ex_db_parent_approved)))
       = snd (updateLeaveStatus 2 ex_warden 50 ex_approve ex_db_parent_approved)"
    by simp
  have refused: "fst (updateLeaveStatus 3 ex_warden 50 ex_reject
            (snd (updateLeaveStatus 2 ex_warden 50 ex_approve ex_db_parent_approved)))
       = Inl (400, ''Only parent-approved requests can be approved/rejected by warden'')"
    by (simp add: handler_defs query_defs ex_defs)
  from late state(2,3,4) readable
  have race: "fst (updateLeaveStatus_write ex_warden 50 ex_race_approve ex_db_parent_approved)
       = Inr (applyUpdate ex_race_approve ex_leave_parent_approved)"
    "fst (updateLeaveStatus_write ex_warden 50 ex_race_reject
            (snd (updateLeaveStatus_write ex_warden 50 ex_race_approve ex_db_parent_approved)))
       = Inr (applyUpdate ex_race_reject (applyUpdate ex_race_approve ex_leave_parent_approved))"
    "status (applyUpdate ex_race_reject (applyUpdate ex_race_approve ex_leave_parent_approved))
       = b_status ex_reject"
    unfolding ex_race_approve_def ex_race_reject_def by blast+
  from race(3) have race_status:
    "status (applyUpdate ex_race_reject (applyUpdate ex_race_approve ex_leave_parent_approved))
       = ''Rejected''"
    by (simp add: ex_reject_def)
  from again cancelled obtain e where "cancelMyLeaveRequest ex_resident 50
        (snd (cancelMyLeaveRequest ex_resident 50 ex_db)) =
      (Inl e, snd (cancelMyLeaveRequest ex_resident 50 ex_db))"
    by blast
  then have twice: "snd (cancelMyLeaveRequest ex_resident 50 (snd (cancelMyLeaveRequest ex_resident 50 ex_db)))
       = snd (cancelMyLeaveRequest ex_resident 50 ex_db)"
    by simp
  from uniq found state readable a first refused same race(1,2) race_status cancelled twice
  show ?thesis by (intro conjI)
qed

text \<open>
  Two warden decisions that both read the guardian-approved leave 50 before either
  writes: the approval is written and answered with success, then the rejection is
  written and answered with success too, and the trail of the stored leave no longer
  holds the approval.
\<close>

theorem C9_counterexample:
  "updateLeaveStatus_read 2 ex_warden 50 ex_approve ex_db_parent_approved = Inr ex_race_approve
   \<and> updateLeaveStatus_read 3 ex_warden 50 ex_reject ex_db_parent_approved = Inr ex_race_reject
   \<and> fst (updateLeaveStatus_write ex_warden 50 ex_race_approve ex_db_parent_approved)
       = Inr (applyUpdate ex_race_approve ex_leave_parent_approved)
   \<and> map status (leaves (snd (updateLeaveStatus_write ex_warden 50 ex_race_approve ex_db_parent_approved)))
       = [''Approved'']
   \<and> fst (updateLeaveStatus_write ex_warden 50 ex_race_reject
            (snd (updateLeaveStatus_write ex_warden 50 ex_race_approve ex_db_parent_approved)))
       = Inr (applyUpdate ex_race_reject (applyUpdate ex_race_approve ex_leave_parent_approved))
   \<and> map status (leaves (snd (updateLeaveStatus_write ex_warden 50 ex_race_reject
            (snd (updateLeaveStatus_write ex_warden 50 ex_race_approve ex_db_parent_approved)))))
       = [''Rejected'']
   \<and> map h_status (statusHistory
        (applyUpdate ex_race_reject (applyUpdate ex_race_approve ex_leave_parent_approved)))
       = [''PendingParent'', ''ApprovedByParent'', ''Rejected'']"
  by (simp add: handler_defs query_defs ex_defs)

section \<open>Validation of the decision value\<close>

text \<open>
  Claim C10. A guardian or warden decision whose value is neither \<^verbatim>\<open>Approved\<close> nor
  \<^verbatim>\<open>Rejected\<close> is answered with status 400 and the message
  \<^verbatim>\<open>Invalid status. Must be Approved or Rejected\<close>, whatever the caller, the leave id and
  the database are: no profile and no leave is looked up before, and the database is
  returned as it was.
\<close>

theorem C10_invalid_decision_rejected_first:
  assumes "b_status b \<noteq> ''Approved''" and "b_status b \<noteq> ''Rejected''"
  shows "parentApproveOrReject now u i b d =
           (Inl (400, ''Invalid status. Must be Approved or Rejected''), d)
       \<and> updateLeaveStatus now u i b d =
           (Inl (400, ''Invalid status. Must be Approved or Rejected''), d)"
  using assms
  by (simp add: parentApproveOrReject_def updateLeaveStatus_def updateLeaveStatus_read_def)

theorem C10_witness:
  "b_status \<lparr>b_status = ''Maybe'', b_rejectionReason = None\<rparr> \<noteq> ''Approved''
   \<and> b_status \<lparr>b_status = ''Maybe'', b_rejectionReason = None\<rparr> \<noteq> ''Rejected''
   \<and> parentApproveOrReject 1 ex_guardian 50 \<lparr>b_status = ''Maybe'', b_rejectionReason = None\<rparr> ex_db =
       (Inl (400, ''Invalid status. Must be Approved or Rejected''), ex_db)
   \<and> updateLeaveStatus 1 ex_warden 50 \<lparr>b_status = ''Maybe'', b_rejectionReason = None\<rparr> ex_db =
       (Inl (400, ''Invalid status. Must be Approved or Rejected''), ex_db)"
  using C10_invalid_decision_rejected_first
          [where b = "\<lparr>b_status = ''Maybe'', b_rejectionReason = None\<rparr>" and now = 1
             and i = 50 and d = ex_db, of ex_guardian]
        C10_invalid_decision_rejected_first
          [where b = "\<lparr>b_status = ''Maybe'', b_rejectionReason = None\<rparr>" and now = 1
             and i = 50 and d = ex_db, of ex_warden]
  by simp

end
